theory Spec2Isabelle
  imports Complex_Main "HOL-Library.AList"
begin

section \<open>Conventions of the embedding\<close>

text \<open>
  The development embeds the checkout pipeline of the thermostat automation service:
  \<^verbatim>\<open>src/calendar_poller.py\<close>, \<^verbatim>\<open>src/auth.py\<close>, \<^verbatim>\<open>src/nest_controller.py\<close>,
  \<^verbatim>\<open>src/config.py\<close> and the job functions of \<^verbatim>\<open>src/main.py\<close>.

  \<^item> An instant is an \<open>int\<close>: microseconds since the epoch, in UTC. A \<open>timedelta\<close> is an
    \<open>int\<close> of microseconds. The range limits of Python's \<open>datetime\<close> and \<open>timedelta\<close>
    (years 1 to 9999, at most 999999999 days) are not modelled.
  \<^item> Every reading of the clock (\<open>datetime.now\<close>, \<open>datetime.utcnow\<close>) is an argument
    \<open>now\<close> of the function that reads it, or is drawn from the \<open>clock\<close> of the world.
  \<^item> Text is ASCII: a \<open>string\<close> is a list of bytes, and \<open>upper\<close>, \<open>lower\<close> and the
    whitespace class are Python's on ASCII.
  \<^item> A Python \<open>dict\<close> is an association list in insertion order with distinct keys:
    assignment is \<open>AList.update\<close> (overwrite in place, else append), \<open>del\<close> is
    \<open>AList.delete\<close>.
  \<^item> Exceptions are values of type \<open>exc\<close>; a function that can raise returns
    \<open>exc + 'a\<close>. Only the \<open>Exception\<close> hierarchy is modelled (cancellation and
    interrupts are not).
\<close>

definition timedelta_minutes :: "int \<Rightarrow> int" where
  "timedelta_minutes m = m * 60000000"

definition timedelta_hours :: "int \<Rightarrow> int" where
  "timedelta_hours h = h * 3600000000"

datatype exc =
    HTTPStatusError nat
  | ConnectError
  | TimeoutException
  | RefreshError
  | AttributeError
  | ValueError
  | RetryError exc

subsection \<open>ASCII text\<close>

definition isspace :: "char \<Rightarrow> bool" where
  "isspace c \<longleftrightarrow> c \<in> {CHR 0x09, CHR 0x0A, CHR 0x0B, CHR 0x0C, CHR 0x0D,
                        CHR 0x1C, CHR 0x1D, CHR 0x1E, CHR 0x1F, CHR 0x20}"

definition upper_char :: "char \<Rightarrow> char" where
  "upper_char c =
     (case map_of (zip ''abcdefghijklmnopqrstuvwxyz'' ''ABCDEFGHIJKLMNOPQRSTUVWXYZ'') c of
        Some u \<Rightarrow> u | None \<Rightarrow> c)"

definition lower_char :: "char \<Rightarrow> char" where
  "lower_char c =
     (case map_of (zip ''ABCDEFGHIJKLMNOPQRSTUVWXYZ'' ''abcdefghijklmnopqrstuvwxyz'') c of
        Some l \<Rightarrow> l | None \<Rightarrow> c)"

definition upper :: "string \<Rightarrow> string" where
  "upper s = map upper_char s"

definition lower :: "string \<Rightarrow> string" where
  "lower s = map lower_char s"

definition strip :: "string \<Rightarrow> string" where
  "strip s = rev (dropWhile isspace (rev (dropWhile isspace s)))"

text \<open>\<open>startswith s p\<close> is \<open>s.startswith(p)\<close>; \<open>contains s sub\<close> is \<open>sub in s\<close>.\<close>

definition startswith :: "string \<Rightarrow> string \<Rightarrow> bool" where
  "startswith s p \<longleftrightarrow> take (length p) s = p"

fun contains :: "string \<Rightarrow> string \<Rightarrow> bool" where
  "contains [] sub = (sub = [])"
| "contains (c # cs) sub = (startswith (c # cs) sub \<or> contains cs sub)"

subsection \<open>calendar\_poller.py: the data\<close>

text \<open>
  An aware \<open>datetime\<close> is its instant and its UTC offset (which only \<open>isoformat\<close>
  reads). Comparison of aware datetimes compares the instants.
\<close>

record datetime =
  instant :: int
  utcoffset :: int

record checkout_event =
  reservation_id :: string
  event_start :: datetime
  event_end :: datetime
  property_name :: string
  guest_name :: string
  summary :: string
  description :: string
  has_trigger_keyword :: bool

text \<open>
  The value of a \<open>DTSTART\<close> or \<open>DTEND\<close> property (\<open>.dt\<close>): an aware datetime, a naive
  datetime (its wall-clock reading in microseconds) or a date (its day number).
\<close>

datatype ical_time =
    Aware datetime
  | Naive int
  | DateOnly int

text \<open>
  A component as \<open>parse_events\<close> reads it: its name, \<open>str(get("summary", ""))\<close>,
  \<open>str(get("description", ""))\<close>, \<open>get("dtstart")\<close> and \<open>get("dtend")\<close>. A calendar is
  the list \<open>calendar.walk()\<close> of its components.
\<close>

record component =
  comp_name :: string
  comp_summary :: string
  comp_description :: string
  dtstart :: "ical_time option"
  dtend :: "ical_time option"

type_synonym calendar = "component list"

record calendar_poller =
  ical_url :: string
  trigger_keyword :: string
  processed_events :: "string set"
  processed_timestamps :: "(string \<times> int) list"

subsection \<open>calendar\_poller.py: the ledger\<close>

definition filter_unprocessed :: "calendar_poller \<Rightarrow> checkout_event list \<Rightarrow> checkout_event list" where
  "filter_unprocessed self events =
     filter (\<lambda>event. reservation_id event \<notin> processed_events self) events"

definition mark_processed :: "calendar_poller \<Rightarrow> checkout_event \<Rightarrow> int \<Rightarrow> calendar_poller" where
  "mark_processed self event now =
     self\<lparr>processed_events := insert (reservation_id event) (processed_events self),
          processed_timestamps :=
            AList.update (reservation_id event) now (processed_timestamps self)\<rparr>"

text \<open>The list \<open>to_remove\<close> that the first loop of \<open>cleanup_old_processed\<close> builds.\<close>

definition to_remove :: "calendar_poller \<Rightarrow> int \<Rightarrow> int \<Rightarrow> string list" where
  "to_remove self max_age_hours now =
     (let cutoff = now - timedelta_hours max_age_hours
      in map fst (filter (\<lambda>(res_id, timestamp). timestamp < cutoff)
                         (processed_timestamps self)))"

definition discard_entry :: "string \<Rightarrow> calendar_poller \<Rightarrow> calendar_poller" where
  "discard_entry res_id self =
     self\<lparr>processed_events := processed_events self - {res_id},
          processed_timestamps := AList.delete res_id (processed_timestamps self)\<rparr>"

definition cleanup_old_processed :: "calendar_poller \<Rightarrow> int \<Rightarrow> int \<Rightarrow> calendar_poller" where
  "cleanup_old_processed self max_age_hours now =
     fold discard_entry (to_remove self max_age_hours now) self"

text \<open>
  The three operations a ledger sees, as a trace. \<open>evicts opn self rid\<close> says that
  \<open>opn\<close>, run in state \<open>self\<close>, is a cleanup that removes \<open>rid\<close>.
\<close>

datatype ledger_op =
    MarkProcessed checkout_event int
  | CleanupOldProcessed int int
  | FilterUnprocessed "checkout_event list"

fun apply_ledger_op :: "calendar_poller \<Rightarrow> ledger_op \<Rightarrow> calendar_poller" where
  "apply_ledger_op self (MarkProcessed event now) = mark_processed self event now"
| "apply_ledger_op self (CleanupOldProcessed max_age_hours now) =
     cleanup_old_processed self max_age_hours now"
| "apply_ledger_op self (FilterUnprocessed events) = self"

fun evicts :: "ledger_op \<Rightarrow> calendar_poller \<Rightarrow> string \<Rightarrow> bool" where
  "evicts (CleanupOldProcessed max_age_hours now) self rid =
     (rid \<in> set (to_remove self max_age_hours now))"
| "evicts _ self rid = False"

fun run_ledger :: "calendar_poller \<Rightarrow> ledger_op list \<Rightarrow> calendar_poller" where
  "run_ledger self [] = self"
| "run_ledger self (opn # ops) = run_ledger (apply_ledger_op self opn) ops"

fun never_evicted :: "string \<Rightarrow> calendar_poller \<Rightarrow> ledger_op list \<Rightarrow> bool" where
  "never_evicted rid self [] = True"
| "never_evicted rid self (opn # ops) =
     (\<not> evicts opn self rid \<and> never_evicted rid (apply_ledger_op self opn) ops)"

subsection \<open>calendar\_poller.py: reading a description\<close>

text \<open>
  \<open>re.search(r"Reservation:\s*([A-Z0-9]+)", description, re.IGNORECASE)\<close>: the leftmost
  position where the label matches in any case, then the longest run of whitespace, then
  the longest non-empty run of letters and digits. \<open>match_reservation\<close> matches at the
  start of its argument; \<open>search_reservation\<close> tries each position from the left.
\<close>

definition is_id_char :: "char \<Rightarrow> bool" where
  "is_id_char c \<longleftrightarrow>
     c \<in> set ''ABCDEFGHIJKLMNOPQRSTUVWXYZabcdefghijklmnopqrstuvwxyz0123456789''"

definition match_reservation :: "string \<Rightarrow> string option" where
  "match_reservation s =
     (if lower (take 12 s) = ''reservation:''
      then (let group1 = takeWhile is_id_char (dropWhile isspace (drop 12 s))
            in if group1 = [] then None else Some group1)
      else None)"

fun search_reservation :: "string \<Rightarrow> string option" where
  "search_reservation [] = match_reservation []"
| "search_reservation (c # cs) =
     (case match_reservation (c # cs) of
        Some group1 \<Rightarrow> Some group1
      | None \<Rightarrow> search_reservation cs)"

definition parse_reservation_id :: "string \<Rightarrow> string option" where
  "parse_reservation_id description' = search_reservation description'"

text \<open>
  \<open>re.search(r"Property:\s*(.+?)(?:\n|$)", description)\<close> and the same pattern for
  \<open>Guest name:\<close>. After the label, \<open>\s*\<close> first takes all the whitespace and gives it
  back one character at a time (\<open>backtrack_field\<close>, from \<open>k\<close> characters down to none);
  with \<open>k\<close> characters taken, \<open>(.+?)(?:\n|$)\<close> matches when a character other than a
  newline follows, and the group is the run of characters up to the next newline or the
  end (\<open>group_at\<close>).
\<close>

definition group_at :: "nat \<Rightarrow> string \<Rightarrow> string option" where
  "group_at k rest =
     (case drop k rest of
        [] \<Rightarrow> None
      | c # cs \<Rightarrow>
          if c = CHR 0x0A then None
          else Some (takeWhile (\<lambda>x. x \<noteq> CHR 0x0A) (c # cs)))"

fun backtrack_field :: "nat \<Rightarrow> string \<Rightarrow> string option" where
  "backtrack_field 0 rest = group_at 0 rest"
| "backtrack_field (Suc k) rest =
     (case group_at (Suc k) rest of
        Some group1 \<Rightarrow> Some group1
      | None \<Rightarrow> backtrack_field k rest)"

definition match_field :: "string \<Rightarrow> string \<Rightarrow> string option" where
  "match_field label s =
     (if startswith s label
      then (let rest = drop (length label) s
            in backtrack_field (length (takeWhile isspace rest)) rest)
      else None)"

fun search_field :: "string \<Rightarrow> string \<Rightarrow> string option" where
  "search_field label [] = match_field label []"
| "search_field label (c # cs) =
     (case match_field label (c # cs) of
        Some group1 \<Rightarrow> Some group1
      | None \<Rightarrow> search_field label cs)"

definition parse_property_name :: "string \<Rightarrow> string" where
  "parse_property_name description' =
     (case search_field ''Property:'' description' of
        Some group1 \<Rightarrow> strip group1
      | None \<Rightarrow> ''Unknown Property'')"

definition parse_guest_name :: "string \<Rightarrow> string" where
  "parse_guest_name description' =
     (case search_field ''Guest name:'' description' of
        Some group1 \<Rightarrow> strip group1
      | None \<Rightarrow> ''Unknown Guest'')"

subsection \<open>calendar\_poller.py: parse\_events\<close>

text \<open>
  \<open>_ensure_timezone_aware\<close> reads \<open>dt.tzinfo\<close>: a naive datetime is localized to UTC, an
  aware one is returned as it is, and a \<open>date\<close> has no attribute \<open>tzinfo\<close>, so the read
  raises \<open>AttributeError\<close>. Both values that leave it are datetimes, so the two
  \<open>isinstance\<close> branches of \<open>parse_events\<close> that follow change nothing.
\<close>

definition ensure_timezone_aware :: "ical_time \<Rightarrow> exc + datetime" where
  "ensure_timezone_aware dt =
     (case dt of
        Aware d \<Rightarrow> Inr d
      | Naive t \<Rightarrow> Inr \<lparr>instant = t, utcoffset = 0\<rparr>
      | DateOnly _ \<Rightarrow> Inl AttributeError)"

text \<open>
  The pieces of the body of the \<open>try\<close> of \<open>parse_events\<close>: the end of the event (the
  \<open>DTEND\<close>, or one hour after the start), \<open>has_trigger\<close> and \<open>is_checkout\<close>.
\<close>

definition event_end_of :: "component \<Rightarrow> datetime \<Rightarrow> exc + datetime" where
  "event_end_of c start =
     (case dtend c of
        Some de \<Rightarrow> ensure_timezone_aware de
      | None \<Rightarrow> Inr (start\<lparr>instant := instant start + timedelta_hours 1\<rparr>))"

definition has_trigger :: "calendar_poller \<Rightarrow> string \<Rightarrow> bool" where
  "has_trigger self description' \<longleftrightarrow>
     contains (upper description') (upper (trigger_keyword self))"

definition is_checkout :: "string \<Rightarrow> bool" where
  "is_checkout summary' \<longleftrightarrow>
     contains (lower summary') ''check-out'' \<or> contains (lower summary') ''checkout''"

text \<open>
  The body of the \<open>try\<close> of \<open>parse_events\<close> for one \<open>VEVENT\<close>: \<open>Inl\<close> when it raises,
  \<open>Inr None\<close> at each \<open>continue\<close>, \<open>Inr (Some event)\<close> when the event is appended.
  \<open>isoformat\<close> is the standard library's \<open>datetime.isoformat\<close>.
\<close>

definition parse_event ::
  "calendar_poller \<Rightarrow> (datetime \<Rightarrow> string) \<Rightarrow> int \<Rightarrow> int \<Rightarrow> component \<Rightarrow> exc + checkout_event option" where
  "parse_event self isoformat buffer_start now c =
     (case dtstart c of
        None \<Rightarrow> Inr None
      | Some ds \<Rightarrow>
          (case ensure_timezone_aware ds of
             Inl e \<Rightarrow> Inl e
           | Inr start \<Rightarrow>
               (case event_end_of c start of
                  Inl e \<Rightarrow> Inl e
                | Inr end' \<Rightarrow>
                    (let is_in_window = (buffer_start \<le> instant start \<and> instant start \<le> now);
                         is_happening_now = (instant start \<le> now \<and> now \<le> instant end')
                     in if \<not> (is_in_window \<or> is_happening_now) then Inr None
                        else
                          (let rid = (case parse_reservation_id (comp_description c) of
                                        Some r \<Rightarrow> r
                                      | None \<Rightarrow> take 20 (comp_summary c) @ ''_'' @ isoformat start)
                           in if \<not> (is_checkout (comp_summary c) \<or>
                                      has_trigger self (comp_description c))
                              then Inr None
                              else Inr (Some
                                \<lparr>reservation_id = rid,
                                 event_start = start,
                                 event_end = end',
                                 property_name = parse_property_name (comp_description c),
                                 guest_name = parse_guest_name (comp_description c),
                                 summary = comp_summary c,
                                 description = comp_description c,
                                 has_trigger_keyword = has_trigger self (comp_description c)\<rparr>))))))"

text \<open>
  One round of the loop of \<open>parse_events\<close>: the events it appends (none or one). A
  component that is not a \<open>VEVENT\<close> is skipped; an exception of the body is logged and
  the component skipped.
\<close>

definition events_of_component ::
  "calendar_poller \<Rightarrow> (datetime \<Rightarrow> string) \<Rightarrow> int \<Rightarrow> int \<Rightarrow> component \<Rightarrow> checkout_event list" where
  "events_of_component self isoformat buffer_start now c =
     (if comp_name c \<noteq> ''VEVENT'' then []
      else (case parse_event self isoformat buffer_start now c of
              Inl e \<Rightarrow> []
            | Inr None \<Rightarrow> []
            | Inr (Some event) \<Rightarrow> [event]))"

definition parse_events ::
  "calendar_poller \<Rightarrow> (datetime \<Rightarrow> string) \<Rightarrow> calendar \<Rightarrow> int \<Rightarrow> int \<Rightarrow> checkout_event list" where
  "parse_events self isoformat calendar' buffer_minutes now =
     (let buffer_start = now - timedelta_minutes buffer_minutes
      in concat (map (events_of_component self isoformat buffer_start now) calendar'))"

subsection \<open>The world outside the process\<close>

text \<open>
  What the remote systems answer is a script the world holds, one stream per kind of
  request; what the process has asked of them so far is counted or logged beside it.

  \<^item> \<open>feed_result\<close>: the GET of the calendar feed raises, or returns a status and a body;
    the body either parses (\<open>Calendar.from_ical\<close>) to a calendar or is malformed.
  \<^item> \<open>refresh_result\<close>: the token exchange of \<open>Credentials.refresh\<close> raises, or grants an
    access token and an expiry.
  \<^item> \<open>sdm_result\<close>: a request to the device API raises (connection, timeout), or returns
    a status and a body; the body of a listing is JSON with an optional \<open>devices\<close> list,
    or is not JSON.
\<close>

datatype ical_text = Parses calendar | Malformed

datatype feed_result = FeedRaises exc | FeedResponse nat ical_text

datatype refresh_result = RefreshRaises exc | RefreshGrants string "int option"

text \<open>
  A device of the listing, as \<open>list_devices\<close> reads it: \<open>name\<close>, and of \<open>traits\<close> the four
  traits it looks up. A trait is \<open>None\<close> when absent, else the optional value of the one
  key read from it.
\<close>

record device_json =
  dj_name :: "string option"
  thermostat_mode_trait :: "string option option"
  info_trait :: "string option option"
  temperature_trait :: "real option option"
  humidity_trait :: "real option option"

datatype json_body = NotJson | DevicesJson "device_json list option"

datatype sdm_result = SdmRaises exc | SdmResponse nat json_body

datatype sdm_request = GetDevices | ExecuteCommand string string

record notification =
  n_property_name :: string
  n_guest_name :: string
  n_reservation_id :: string
  n_thermostat_results :: "(string \<times> bool) list"
  n_event_time :: datetime

record world =
  clock :: "nat \<Rightarrow> int"
  clock_reads :: nat
  feed_results :: "nat \<Rightarrow> feed_result"
  feed_requests :: nat
  refresh_results :: "nat \<Rightarrow> refresh_result"
  refresh_requests :: nat
  sdm_results :: "nat \<Rightarrow> sdm_result"
  sdm_requests :: "sdm_request list"
  notifications :: "notification list"

definition read_clock :: "world \<Rightarrow> int \<times> world" where
  "read_clock w = (clock w (clock_reads w), w\<lparr>clock_reads := Suc (clock_reads w)\<rparr>)"

definition get_feed :: "world \<Rightarrow> feed_result \<times> world" where
  "get_feed w = (feed_results w (feed_requests w), w\<lparr>feed_requests := Suc (feed_requests w)\<rparr>)"

definition refresh_exchange :: "world \<Rightarrow> refresh_result \<times> world" where
  "refresh_exchange w =
     (refresh_results w (refresh_requests w), w\<lparr>refresh_requests := Suc (refresh_requests w)\<rparr>)"

definition send_sdm :: "sdm_request \<Rightarrow> world \<Rightarrow> sdm_result \<times> world" where
  "send_sdm req w =
     (sdm_results w (length (sdm_requests w)), w\<lparr>sdm_requests := sdm_requests w @ [req]\<rparr>)"

text \<open>
  \<open>Response.raise_for_status\<close> of httpx: nothing for a 2xx status, \<open>HTTPStatusError\<close> for
  any other (releases before 0.20 raise for 4xx and 5xx only; the two agree on the 2xx,
  4xx and 5xx statuses). \<open>is_http_error\<close> is \<open>isinstance(e, httpx.HTTPError)\<close>.
\<close>

definition raise_for_status :: "nat \<Rightarrow> exc + unit" where
  "raise_for_status status_code =
     (if 200 \<le> status_code \<and> status_code \<le> 299 then Inr () else Inl (HTTPStatusError status_code))"

definition is_http_error :: "exc \<Rightarrow> bool" where
  "is_http_error e =
     (case e of HTTPStatusError _ \<Rightarrow> True | ConnectError \<Rightarrow> True | TimeoutException \<Rightarrow> True
      | _ \<Rightarrow> False)"

subsection \<open>calendar\_poller.py: fetching\<close>

fun replace :: "string \<Rightarrow> string \<Rightarrow> string \<Rightarrow> string" where
  "replace [] old new = []"
| "replace (c # cs) old new =
     (if old \<noteq> [] \<and> startswith (c # cs) old
      then new @ replace (drop (length old - 1) cs) old new
      else c # replace cs old new)"

text \<open>\<open>CalendarPoller.__init__\<close>; \<open>replace\<close> is \<open>str.replace\<close> for a non-empty \<open>old\<close>.\<close>

definition CalendarPoller :: "string \<Rightarrow> string \<Rightarrow> calendar_poller" where
  "CalendarPoller url keyword =
     \<lparr>ical_url = replace url ''webcal://'' ''https://'',
      trigger_keyword = keyword,
      processed_events = {},
      processed_timestamps = []\<rparr>"

definition from_ical :: "ical_text \<Rightarrow> exc + calendar" where
  "from_ical text' = (case text' of Parses cal \<Rightarrow> Inr cal | Malformed \<Rightarrow> Inl ValueError)"

text \<open>The body of the \<open>try\<close> of \<open>fetch_calendar\<close>, then the function with its handlers.\<close>

definition fetch_calendar_try :: "feed_result \<Rightarrow> exc + calendar" where
  "fetch_calendar_try r =
     (case r of
        FeedRaises e \<Rightarrow> Inl e
      | FeedResponse status_code text' \<Rightarrow>
          (case raise_for_status status_code of
             Inl e \<Rightarrow> Inl e
           | Inr _ \<Rightarrow> from_ical text'))"

definition fetch_calendar :: "calendar_poller \<Rightarrow> world \<Rightarrow> (exc + calendar option) \<times> world" where
  "fetch_calendar self w =
     (let (r, w') = get_feed w
      in (case fetch_calendar_try r of
            Inr cal \<Rightarrow> (Inr (Some cal), w')
          | Inl e \<Rightarrow> if is_http_error e then (Inr None, w') else (Inr None, w')))"

text \<open>
  \<open>get_actionable_checkouts\<close>: the result (an exception or the list), the poller and the
  world afterwards. \<open>cleanup_old_processed()\<close> runs with its default of 24 hours.
\<close>

definition get_actionable_checkouts ::
  "calendar_poller \<Rightarrow> (datetime \<Rightarrow> string) \<Rightarrow> int \<Rightarrow> world
     \<Rightarrow> (exc + checkout_event list) \<times> calendar_poller \<times> world" where
  "get_actionable_checkouts self isoformat buffer_minutes w =
     (let (now1, w1) = read_clock w;
          self1 = cleanup_old_processed self 24 now1;
          (fetched, w2) = fetch_calendar self1 w1
      in (case fetched of
            Inl e \<Rightarrow> (Inl e, self1, w2)
          | Inr None \<Rightarrow> (Inr [], self1, w2)
          | Inr (Some calendar') \<Rightarrow>
              (let (now2, w3) = read_clock w2;
                   events = parse_events self1 isoformat calendar' buffer_minutes now2;
                   triggered_events = filter has_trigger_keyword events;
                   unprocessed = filter_unprocessed self1 triggered_events
               in (Inr unprocessed, self1, w3))))"

subsection \<open>auth.py\<close>

record credentials =
  token :: "string option"
  expiry :: "int option"
  cred_refresh_token :: string
  cred_token_uri :: string
  cred_client_id :: string
  cred_client_secret :: string
  cred_scopes :: "string list"

record token_manager =
  client_id :: string
  client_secret :: string
  refresh_token :: string
  credentials :: "credentials option"
  last_refresh :: "int option"

definition GOOGLE_TOKEN_URI :: string where
  "GOOGLE_TOKEN_URI = ''https://oauth2.googleapis.com/token''"

definition SDM_SCOPES :: "string list" where
  "SDM_SCOPES = [''https://www.googleapis.com/auth/sdm.service'']"

definition TokenManager :: "string \<Rightarrow> string \<Rightarrow> string \<Rightarrow> token_manager" where
  "TokenManager cid secret rtoken =
     \<lparr>client_id = cid, client_secret = secret, refresh_token = rtoken,
      credentials = None, last_refresh = None\<rparr>"

definition create_credentials :: "token_manager \<Rightarrow> credentials" where
  "create_credentials self =
     \<lparr>token = None, expiry = None,
      cred_refresh_token = refresh_token self,
      cred_token_uri = GOOGLE_TOKEN_URI,
      cred_client_id = client_id self,
      cred_client_secret = client_secret self,
      cred_scopes = SDM_SCOPES\<rparr>"

text \<open>
  \<open>Credentials.expired\<close> of google-auth: false without an expiry, else true once the
  clock has reached the expiry less the library's \<open>REFRESH_THRESHOLD\<close> (3 minutes 45
  seconds).
\<close>

definition REFRESH_THRESHOLD :: int where
  "REFRESH_THRESHOLD = 225000000"

definition expired :: "credentials \<Rightarrow> int \<Rightarrow> bool" where
  "expired c now = (case expiry c of None \<Rightarrow> False | Some e \<Rightarrow> e - REFRESH_THRESHOLD \<le> now)"

definition needs_refresh :: "credentials \<Rightarrow> int \<Rightarrow> bool" where
  "needs_refresh c now \<longleftrightarrow>
     token c = None \<or> expired c now \<or>
     (case expiry c of None \<Rightarrow> False | Some e \<Rightarrow> e < now + timedelta_minutes 10)"

text \<open>
  \<open>get_valid_token\<close>: the result is what \<open>return self._credentials.token\<close> gives, or the
  exception that \<open>refresh\<close> raised and the handler raised again.
\<close>

definition get_valid_token ::
  "token_manager \<Rightarrow> int \<Rightarrow> world \<Rightarrow> (exc + string option) \<times> token_manager \<times> world" where
  "get_valid_token self now w =
     (let creds = (case credentials self of None \<Rightarrow> create_credentials self | Some c \<Rightarrow> c);
          self1 = self\<lparr>credentials := Some creds\<rparr>
      in if needs_refresh creds now
         then (let (r, w') = refresh_exchange w
               in (case r of
                     RefreshRaises e \<Rightarrow> (Inl e, self1, w')
                   | RefreshGrants access_token new_expiry \<Rightarrow>
                       (Inr (Some access_token),
                        self1\<lparr>credentials := Some (creds\<lparr>token := Some access_token,
                                                           expiry := new_expiry\<rparr>),
                              last_refresh := Some now\<rparr>,
                        w')))
         else (Inr (token creds), self1, w))"

definition token_expiry :: "token_manager \<Rightarrow> int option" where
  "token_expiry self = (case credentials self of Some c \<Rightarrow> expiry c | None \<Rightarrow> None)"

definition get_auth_header ::
  "token_manager \<Rightarrow> int \<Rightarrow> world \<Rightarrow> (exc + (string \<times> string) list) \<times> token_manager \<times> world" where
  "get_auth_header self now w =
     (case get_valid_token self now w of
        (Inl e, self', w') \<Rightarrow> (Inl e, self', w')
      | (Inr tok, self', w') \<Rightarrow>
          (Inr [(''Authorization'',
                 ''Bearer '' @ (case tok of Some t \<Rightarrow> t | None \<Rightarrow> ''None''))], self', w'))"

subsection \<open>nest\_controller.py\<close>

record thermostat =
  device_id :: string
  name :: string
  display_name :: string
  current_mode :: string
  ambient_temperature_celsius :: "real option"
  humidity_percent :: "real option"

record nest_controller =
  project_id :: string
  token_manager :: token_manager
  devices_cache :: "thermostat list option"

definition NestController :: "string \<Rightarrow> token_manager \<Rightarrow> nest_controller" where
  "NestController pid tm = \<lparr>project_id = pid, token_manager = tm, devices_cache = None\<rparr>"

text \<open>
  \<open>_get_headers\<close>; the clock reading \<open>now\<close> is the one \<open>get_valid_token\<close> takes. The token
  manager is a field of the controller, so the controller comes back changed.
\<close>

definition get_headers ::
  "nest_controller \<Rightarrow> int \<Rightarrow> world \<Rightarrow> (exc + (string \<times> string) list) \<times> nest_controller \<times> world" where
  "get_headers self now w =
     (case get_auth_header (token_manager self) now w of
        (Inl e, tm, w') \<Rightarrow> (Inl e, self\<lparr>token_manager := tm\<rparr>, w')
      | (Inr headers, tm, w') \<Rightarrow>
          (Inr (AList.update ''Content-Type'' ''application/json'' headers),
           self\<lparr>token_manager := tm\<rparr>, w'))"

text \<open>
  The decorator \<open>@retry(stop=stop_after_attempt(3), wait=wait_exponential(...),
  retry=retry_if_exception_type((httpx.HTTPStatusError, httpx.ConnectError)))\<close> of
  tenacity. An attempt that returns ends the call. An attempt that raises an exception
  outside the two classes ends the call with that exception. Otherwise, when the attempt
  number has reached the limit the call ends with \<open>RetryError\<close>, and else the next
  attempt follows (the wait between two attempts is time only).
\<close>

definition retry_if_exception_type :: "exc \<Rightarrow> bool" where
  "retry_if_exception_type e =
     (case e of HTTPStatusError _ \<Rightarrow> True | ConnectError \<Rightarrow> True | _ \<Rightarrow> False)"

definition stop_after_attempt :: "nat \<Rightarrow> nat \<Rightarrow> bool" where
  "stop_after_attempt max_attempt_number attempt_number \<longleftrightarrow> max_attempt_number \<le> attempt_number"

function call_with_retry ::
  "nat \<Rightarrow> nat \<Rightarrow> ('s \<Rightarrow> (exc + 'a) \<times> 's) \<Rightarrow> 's \<Rightarrow> (exc + 'a) \<times> 's" where
  "call_with_retry max_attempt_number attempt_number f s =
     (case f s of
        (Inr v, s') \<Rightarrow> (Inr v, s')
      | (Inl e, s') \<Rightarrow>
          if \<not> retry_if_exception_type e then (Inl e, s')
          else if stop_after_attempt max_attempt_number attempt_number
               then (Inl (RetryError e), s')
               else call_with_retry max_attempt_number (Suc attempt_number) f s')"
  by pat_completeness auto
termination
  by (relation "measure (\<lambda>(m, n, f, s). m - n)") (auto simp: stop_after_attempt_def)

declare call_with_retry.simps [simp del]

definition retry :: "('s \<Rightarrow> (exc + 'a) \<times> 's) \<Rightarrow> 's \<Rightarrow> (exc + 'a) \<times> 's" where
  "retry f s = call_with_retry 3 1 f s"

text \<open>\<open>device.get("name", "").split("/")[-1]\<close>.\<close>

definition last_segment :: "string \<Rightarrow> string" where
  "last_segment s = rev (takeWhile (\<lambda>c. c \<noteq> CHR ''/'') (rev s))"

definition thermostat_of :: "device_json \<Rightarrow> string option \<Rightarrow> thermostat" where
  "thermostat_of device mode =
     \<lparr>device_id = last_segment (case dj_name device of Some n \<Rightarrow> n | None \<Rightarrow> []),
      name = (case dj_name device of Some n \<Rightarrow> n | None \<Rightarrow> []),
      display_name = (case info_trait device of Some (Some n) \<Rightarrow> n | _ \<Rightarrow> ''Unknown''),
      current_mode = (case mode of Some m \<Rightarrow> m | None \<Rightarrow> ''UNKNOWN''),
      ambient_temperature_celsius =
        (case temperature_trait device of Some t \<Rightarrow> t | None \<Rightarrow> None),
      humidity_percent =
        (case humidity_trait device of Some h \<Rightarrow> h | None \<Rightarrow> None)\<rparr>"

definition thermostats_of :: "device_json list \<Rightarrow> thermostat list" where
  "thermostats_of devices =
     concat (map (\<lambda>device.
       (case thermostat_mode_trait device of
          None \<Rightarrow> []
        | Some mode \<Rightarrow> [thermostat_of device mode])) devices)"

text \<open>
  \<open>list_devices\<close>. \<open>list_devices_fetch\<close> is the part of the body after the cache test;
  \<open>list_devices_attempt\<close> is the decorated body, one attempt; \<open>list_devices\<close> is the
  decorated function. The state is the controller and the world.
\<close>

definition list_devices_fetch ::
  "nest_controller \<times> world \<Rightarrow> (exc + thermostat list) \<times> (nest_controller \<times> world)" where
  "list_devices_fetch s =
     (let (self, w) = s;
          (now, w1) = read_clock w
      in (case get_headers self now w1 of
            (Inl e, self1, w2) \<Rightarrow> (Inl e, (self1, w2))
          | (Inr headers, self1, w2) \<Rightarrow>
              (let (r, w3) = send_sdm GetDevices w2
               in (case r of
                     SdmRaises e \<Rightarrow> (Inl e, (self1, w3))
                   | SdmResponse status_code body \<Rightarrow>
                       (case raise_for_status status_code of
                          Inl e \<Rightarrow> (Inl e, (self1, w3))
                        | Inr _ \<Rightarrow>
                            (case body of
                               NotJson \<Rightarrow> (Inl ValueError, (self1, w3))
                             | DevicesJson devices \<Rightarrow>
                                 (let thermostats =
                                        thermostats_of (case devices of Some ds \<Rightarrow> ds | None \<Rightarrow> [])
                                  in (Inr thermostats,
                                      (self1\<lparr>devices_cache := Some thermostats\<rparr>, w3)))))))))"

definition list_devices_attempt ::
  "bool \<Rightarrow> nest_controller \<times> world \<Rightarrow> (exc + thermostat list) \<times> (nest_controller \<times> world)" where
  "list_devices_attempt force_refresh s =
     (case devices_cache (fst s) of
        Some (d # ds) \<Rightarrow>
          if \<not> force_refresh then (Inr (d # ds), s) else list_devices_fetch s
      | _ \<Rightarrow> list_devices_fetch s)"

definition list_devices ::
  "bool \<Rightarrow> nest_controller \<times> world \<Rightarrow> (exc + thermostat list) \<times> (nest_controller \<times> world)" where
  "list_devices force_refresh s = retry (list_devices_attempt force_refresh) s"

text \<open>
  \<open>set_thermostat_mode\<close>: one attempt of the body, then the decorated function. The
  headers are computed before the request is sent, so a token failure sends nothing.
\<close>

definition set_thermostat_mode_attempt ::
  "string \<Rightarrow> string \<Rightarrow> nest_controller \<times> world \<Rightarrow> (exc + bool) \<times> (nest_controller \<times> world)" where
  "set_thermostat_mode_attempt dev mode s =
     (let (self, w) = s;
          (now, w1) = read_clock w
      in (case get_headers self now w1 of
            (Inl e, self1, w2) \<Rightarrow> (Inl e, (self1, w2))
          | (Inr headers, self1, w2) \<Rightarrow>
              (let (r, w3) = send_sdm (ExecuteCommand dev mode) w2
               in (case r of
                     SdmRaises e \<Rightarrow> (Inl e, (self1, w3))
                   | SdmResponse status_code body \<Rightarrow>
                       if status_code = 200 then (Inr True, (self1, w3))
                       else (case raise_for_status status_code of
                               Inl e \<Rightarrow> (Inl e, (self1, w3))
                             | Inr _ \<Rightarrow> (Inr False, (self1, w3)))))))"

definition set_thermostat_mode ::
  "string \<Rightarrow> string \<Rightarrow> nest_controller \<times> world \<Rightarrow> (exc + bool) \<times> (nest_controller \<times> world)" where
  "set_thermostat_mode dev mode s = retry (set_thermostat_mode_attempt dev mode) s"

definition turn_off_thermostat ::
  "string \<Rightarrow> nest_controller \<times> world \<Rightarrow> (exc + bool) \<times> (nest_controller \<times> world)" where
  "turn_off_thermostat dev s = set_thermostat_mode dev ''OFF'' s"

text \<open>
  The loop of \<open>turn_off_thermostats\<close> with its \<open>results\<close> dictionary, then the function:
  it has no \<open>raise\<close> of its own and its handler catches every exception of the call in
  the loop.
\<close>

fun turn_off_loop ::
  "string list \<Rightarrow> (string \<times> bool) list \<Rightarrow> nest_controller \<times> world
     \<Rightarrow> (string \<times> bool) list \<times> (nest_controller \<times> world)" where
  "turn_off_loop [] results s = (results, s)"
| "turn_off_loop (dev # devs) results s =
     (case turn_off_thermostat dev s of
        (Inr success, s') \<Rightarrow> turn_off_loop devs (AList.update dev success results) s'
      | (Inl e, s') \<Rightarrow> turn_off_loop devs (AList.update dev False results) s')"

definition turn_off_thermostats ::
  "string list \<Rightarrow> nest_controller \<times> world
     \<Rightarrow> (exc + (string \<times> bool) list) \<times> (nest_controller \<times> world)" where
  "turn_off_thermostats device_ids s =
     (let (results, s') = turn_off_loop device_ids [] s in (Inr results, s'))"

definition get_thermostat_status ::
  "string \<Rightarrow> nest_controller \<times> world \<Rightarrow> (exc + thermostat option) \<times> (nest_controller \<times> world)" where
  "get_thermostat_status dev s =
     (case list_devices True s of
        (Inl e, s') \<Rightarrow> (Inl e, s')
      | (Inr devices, s') \<Rightarrow> (Inr (find (\<lambda>device. device_id device = dev) devices), s'))"

subsection \<open>config.py and notifier.py\<close>

text \<open>\<open>split sep s\<close> is \<open>s.split(sep)\<close> for a separator of one character.\<close>

fun split :: "char \<Rightarrow> string \<Rightarrow> string list" where
  "split sep [] = [[]]"
| "split sep (c # cs) =
     (if c = sep then [] # split sep cs
      else (case split sep cs of
              [] \<Rightarrow> [[c]]
            | x # xs \<Rightarrow> (c # x) # xs))"

record settings =
  nest_device_ids :: string
  checkout_buffer_minutes :: int

definition device_ids_list :: "settings \<Rightarrow> string list" where
  "device_ids_list self =
     (if nest_device_ids self = [] then []
      else map strip (filter (\<lambda>d. strip d \<noteq> []) (split CHR '','' (nest_device_ids self))))"

record email_notifier =
  enabled :: bool
  host :: string
  port :: int
  username :: string
  password :: string
  to_email :: string

definition is_configured :: "email_notifier \<Rightarrow> bool" where
  "is_configured self \<longleftrightarrow>
     (if \<not> enabled self then False
      else host self \<noteq> [] \<and> port self \<noteq> 0 \<and> username self \<noteq> [] \<and> password self \<noteq> [] \<and>
           to_email self \<noteq> [])"

subsection \<open>main.py\<close>

text \<open>
  The module's global state. \<open>process_checkout_event\<close> returns one of two dictionaries:
  \<open>{"success": False, "error": "No thermostats found"}\<close> or the action result it has
  stored in \<open>last_action_result\<close>.
\<close>

record action_result =
  ar_reservation_id :: string
  ar_property :: string
  thermostats_off :: nat
  thermostats_failed :: nat
  results :: "(string \<times> bool) list"

datatype outcome = NoThermostatsFound | Processed action_result

record app =
  calendar_poller :: calendar_poller
  nest_controller :: nest_controller
  settings :: settings
  notifier :: email_notifier
  last_poll_time :: "int option"
  last_action_time :: "int option"
  last_action_result :: "action_result option"

text \<open>
  The notification sink: when the notifier is configured, the structured outcome is
  handed over (logged in the world); what the sink returns or raises is ignored.
\<close>

definition send_thermostat_notification ::
  "checkout_event \<Rightarrow> (string \<times> bool) list \<Rightarrow> world \<Rightarrow> world" where
  "send_thermostat_notification event named_results w =
     w\<lparr>notifications := notifications w @
          [\<lparr>n_property_name = property_name event,
            n_guest_name = guest_name event,
            n_reservation_id = reservation_id event,
            n_thermostat_results = named_results,
            n_event_time = event_start event\<rparr>]\<rparr>"

text \<open>
  The target devices of \<open>process_checkout_event\<close>: the configured list, or every
  discovered thermostat when none is configured.
\<close>

definition resolved_device_ids :: "settings \<Rightarrow> thermostat list \<Rightarrow> string list" where
  "resolved_device_ids cfg devices =
     (if device_ids_list cfg = [] then map device_id devices else device_ids_list cfg)"

definition process_checkout_event ::
  "app \<Rightarrow> checkout_event \<Rightarrow> world \<Rightarrow> (exc + outcome) \<times> app \<times> world" where
  "process_checkout_event g event w =
     (case list_devices False (nest_controller g, w) of
        (Inl e, (nc, w1)) \<Rightarrow> (Inl e, g\<lparr>nest_controller := nc\<rparr>, w1)
      | (Inr devices, (nc, w1)) \<Rightarrow>
          (let device_id_to_name =
                 fold (\<lambda>d m. AList.update (device_id d) (display_name d) m) devices [];
               device_ids = resolved_device_ids (settings g) devices
           in if device_ids = [] then (Inr NoThermostatsFound, g\<lparr>nest_controller := nc\<rparr>, w1)
              else
                (case turn_off_thermostats device_ids (nc, w1) of
                   (Inl e, (nc2, w2)) \<Rightarrow> (Inl e, g\<lparr>nest_controller := nc2\<rparr>, w2)
                 | (Inr res, (nc2, w2)) \<Rightarrow>
                     (let success_count = length (filter snd res);
                          fail_count = length res - success_count;
                          (now1, w3) = read_clock w2;
                          poller = mark_processed (calendar_poller g) event now1;
                          (now2, w4) = read_clock w3;
                          result = \<lparr>ar_reservation_id = reservation_id event,
                                    ar_property = property_name event,
                                    thermostats_off = success_count,
                                    thermostats_failed = fail_count,
                                    results = res\<rparr>;
                          named_results =
                            fold (\<lambda>(dev, success) m.
                                    AList.update
                                      (case map_of device_id_to_name dev of
                                         Some n \<Rightarrow> n | None \<Rightarrow> dev) success m) res [];
                          w5 = (if is_configured (notifier g)
                                then send_thermostat_notification event named_results w4
                                else w4)
                      in (Inr (Processed result),
                          g\<lparr>calendar_poller := poller, nest_controller := nc2,
                            last_action_time := Some now2, last_action_result := Some result\<rparr>,
                          w5)))))"

text \<open>
  The loop of \<open>poll_calendar_job\<close> over the events: an exception of one event is logged
  and the next event follows, with the state as the failed call left it.
\<close>

fun process_events :: "checkout_event list \<Rightarrow> app \<times> world \<Rightarrow> app \<times> world" where
  "process_events [] s = s"
| "process_events (event # events) s =
     (case process_checkout_event (fst s) event (snd s) of
        (_, g', w') \<Rightarrow> process_events events (g', w'))"

definition poll_calendar_job :: "app \<Rightarrow> (datetime \<Rightarrow> string) \<Rightarrow> world \<Rightarrow> app \<times> world" where
  "poll_calendar_job g isoformat w =
     (let (now, w1) = read_clock w;
          g1 = g\<lparr>last_poll_time := Some now\<rparr>
      in (case get_actionable_checkouts (calendar_poller g1) isoformat
                 (checkout_buffer_minutes (settings g1)) w1 of
            (Inl e, poller, w2) \<Rightarrow> (g1\<lparr>calendar_poller := poller\<rparr>, w2)
          | (Inr events, poller, w2) \<Rightarrow>
              if events = [] then (g1\<lparr>calendar_poller := poller\<rparr>, w2)
              else process_events events (g1\<lparr>calendar_poller := poller\<rparr>, w2)))"

text \<open>
  The invariant of the two ledger fields: the dictionary has distinct keys (as every
  Python \<open>dict\<close> has) and its keys are the members of the set.
\<close>

definition ledger_consistent :: "calendar_poller \<Rightarrow> bool" where
  "ledger_consistent self \<longleftrightarrow>
     distinct (map fst (processed_timestamps self)) \<and>
     set (map fst (processed_timestamps self)) = processed_events self"

subsection \<open>Notions of the statements\<close>

text \<open>
  The actionable time window in the specification's words: the start falls in
  \<open>[now - buffer_minutes, now]\<close>, or \<open>now\<close> falls within \<open>[start, end]\<close>.
\<close>

definition spec_actionable_window :: "int \<Rightarrow> int \<Rightarrow> int \<Rightarrow> int \<Rightarrow> bool" where
  "spec_actionable_window start end' now buffer_minutes \<longleftrightarrow>
     (now - timedelta_minutes buffer_minutes \<le> start \<and> start \<le> now) \<or>
     (start \<le> now \<and> now \<le> end')"

text \<open>
  The individual outcome of each device of a fan-out: \<open>turn_off_thermostat\<close> is called
  on each id in turn, each call from the state the call before it left, whatever that
  call returned or raised. \<open>succeeded\<close> reads an outcome as the boolean of the result
  mapping (false when the call raised); \<open>own_outcomes\<close> pairs each id with the boolean of
  its own call; \<open>state_after\<close> is the state after the last call.
\<close>

definition succeeded :: "exc + bool \<Rightarrow> bool" where
  "succeeded r = (case r of Inr success \<Rightarrow> success | Inl e \<Rightarrow> False)"

fun individual_outcomes :: "string list \<Rightarrow> nest_controller \<times> world \<Rightarrow> (exc + bool) list" where
  "individual_outcomes [] s = []"
| "individual_outcomes (dev # devs) s =
     fst (turn_off_thermostat dev s) # individual_outcomes devs (snd (turn_off_thermostat dev s))"

fun state_after :: "string list \<Rightarrow> nest_controller \<times> world \<Rightarrow> nest_controller \<times> world" where
  "state_after [] s = s"
| "state_after (dev # devs) s = state_after devs (snd (turn_off_thermostat dev s))"

definition own_outcomes :: "string list \<Rightarrow> nest_controller \<times> world \<Rightarrow> (string \<times> bool) list" where
  "own_outcomes device_ids s = zip device_ids (map succeeded (individual_outcomes device_ids s))"

text \<open>
  The refresh condition in the specification's words: no token is held (no credentials
  yet, or credentials without a token), the held token is expired (its expiry has
  passed), or its expiry is less than ten minutes after \<open>now\<close>.
\<close>

definition spec_refresh_condition :: "token_manager \<Rightarrow> int \<Rightarrow> bool" where
  "spec_refresh_condition self now \<longleftrightarrow>
     (case credentials self of
        None \<Rightarrow> True
      | Some c \<Rightarrow>
          token c = None \<or>
          (case expiry c of
             None \<Rightarrow> False
           | Some e \<Rightarrow> e \<le> now \<or> e < now + timedelta_minutes 10))"

text \<open>
  A fetch or parse failure of the feed: the GET raises, the status is not 2xx, or the
  body does not parse.
\<close>

definition feed_failure :: "feed_result \<Rightarrow> bool" where
  "feed_failure r =
     (case r of
        FeedRaises e \<Rightarrow> True
      | FeedResponse status_code text' \<Rightarrow>
          \<not> (200 \<le> status_code \<and> status_code \<le> 299) \<or> text' = Malformed)"

subsection \<open>Example values\<close>

definition example_poller :: calendar_poller where
  "example_poller =
     \<lparr>ical_url = ''https://example.com/feed.ics'', trigger_keyword = ''TURN_OFF_THERMOSTATS'',
      processed_events = {}, processed_timestamps = []\<rparr>"

definition example_event :: checkout_event where
  "example_event =
     \<lparr>reservation_id = ''ABC123'',
      event_start = \<lparr>instant = 0, utcoffset = 0\<rparr>,
      event_end = \<lparr>instant = 3600000000, utcoffset = 0\<rparr>,
      property_name = ''Unknown Property'', guest_name = ''Unknown Guest'',
      summary = ''Guest Check-out'',
      description = ''Reservation: ABC123 TURN_OFF_THERMOSTATS'',
      has_trigger_keyword = True\<rparr>"

definition other_event :: checkout_event where
  "other_event = example_event\<lparr>reservation_id := ''XYZ789''\<rparr>"

definition refetched_event :: checkout_event where
  "refetched_event = example_event\<lparr>guest_name := ''Ada''\<rparr>"

text \<open>
  Calendar entries read at \<open>example_now\<close> (1000 seconds) with a buffer of 30 minutes: a
  tagged checkout that started 5 minutes ago, the same entry started 31 minutes ago and
  ended 1 minute ago, and a meeting that starts now.
\<close>

definition example_now :: int where
  "example_now = 1000000000"

definition example_isoformat :: "datetime \<Rightarrow> string" where
  "example_isoformat d = ''1970-01-01T00:00:00+00:00''"

definition checkout_entry :: component where
  "checkout_entry =
     \<lparr>comp_name = ''VEVENT'', comp_summary = ''Guest Check-out'',
      comp_description = ''Reservation: ABC123'' @ [CHR 0x0A] @ ''TURN_OFF_THERMOSTATS'',
      dtstart = Some (Aware \<lparr>instant = example_now - timedelta_minutes 5, utcoffset = 0\<rparr>),
      dtend = Some (Aware \<lparr>instant = example_now + timedelta_hours 1, utcoffset = 0\<rparr>)\<rparr>"

definition stale_entry :: component where
  "stale_entry =
     checkout_entry
       \<lparr>dtstart := Some (Naive (example_now - timedelta_minutes 31)),
        dtend := Some (Naive (example_now - timedelta_minutes 1))\<rparr>"

definition meeting_entry :: component where
  "meeting_entry =
     \<lparr>comp_name = ''VEVENT'', comp_summary = ''Team meeting'', comp_description = [],
      dtstart = Some (Aware \<lparr>instant = example_now, utcoffset = 0\<rparr>),
      dtend = None\<rparr>"

text \<open>
  A token manager holding a token that expires at one hour, a controller with an empty
  cache, and worlds whose device API follows a script. The clock of these worlds
  advances by one microsecond per reading; the feed answers 503; a refresh is granted.
\<close>

definition example_token_manager :: token_manager where
  "example_token_manager =
     \<lparr>client_id = ''client'', client_secret = ''secret'', refresh_token = ''refresh'',
      credentials = Some
        \<lparr>token = Some ''ya29.held'', expiry = Some (timedelta_hours 1),
         cred_refresh_token = ''refresh'', cred_token_uri = GOOGLE_TOKEN_URI,
         cred_client_id = ''client'', cred_client_secret = ''secret'',
         cred_scopes = SDM_SCOPES\<rparr>,
      last_refresh = Some 0\<rparr>"

definition example_controller :: nest_controller where
  "example_controller = NestController ''project'' example_token_manager"

definition refresh_granted :: "nat \<Rightarrow> refresh_result" where
  "refresh_granted n = RefreshGrants ''ya29.fresh'' (Some (timedelta_hours 2))"

definition refresh_denied :: "nat \<Rightarrow> refresh_result" where
  "refresh_denied n = RefreshRaises RefreshError"

definition feed_unavailable :: "nat \<Rightarrow> feed_result" where
  "feed_unavailable n = FeedResponse 503 Malformed"

definition feed_malformed :: "nat \<Rightarrow> feed_result" where
  "feed_malformed n = FeedResponse 200 Malformed"

definition microsecond_clock :: "nat \<Rightarrow> int" where
  "microsecond_clock n = int n"

definition scripted_world :: "(nat \<Rightarrow> sdm_result) \<Rightarrow> world" where
  "scripted_world script =
     \<lparr>clock = microsecond_clock, clock_reads = 0,
      feed_results = feed_unavailable, feed_requests = 0,
      refresh_results = refresh_granted, refresh_requests = 0,
      sdm_results = script, sdm_requests = [], notifications = []\<rparr>"

definition always_ok :: "nat \<Rightarrow> sdm_result" where
  "always_ok n = SdmResponse 200 NotJson"

definition always_no_content :: "nat \<Rightarrow> sdm_result" where
  "always_no_content n = SdmResponse 204 NotJson"

definition always_server_error :: "nat \<Rightarrow> sdm_result" where
  "always_server_error n = SdmResponse 500 NotJson"

definition ok_timeout_ok :: "nat \<Rightarrow> sdm_result" where
  "ok_timeout_ok n = (if n = 1 then SdmRaises TimeoutException else SdmResponse 200 NotJson)"

definition unauthorized_then_ok :: "nat \<Rightarrow> sdm_result" where
  "unauthorized_then_ok n = (if n = 0 then SdmResponse 401 NotJson else SdmResponse 200 NotJson)"

definition hallway_json :: device_json where
  "hallway_json =
     \<lparr>dj_name = Some ''enterprises/project/devices/thermo-1'',
      thermostat_mode_trait = Some (Some ''HEAT''),
      info_trait = Some (Some ''Hallway''),
      temperature_trait = None, humidity_trait = None\<rparr>"

definition hallway :: thermostat where
  "hallway =
     \<lparr>device_id = ''thermo-1'', name = ''enterprises/project/devices/thermo-1'',
      display_name = ''Hallway'', current_mode = ''HEAT'',
      ambient_temperature_celsius = None, humidity_percent = None\<rparr>"

definition bad_request_then_listing :: "nat \<Rightarrow> sdm_result" where
  "bad_request_then_listing n =
     (if n = 0 then SdmResponse 400 NotJson
      else SdmResponse 200 (DevicesJson (Some [hallway_json])))"

definition empty_listing :: "nat \<Rightarrow> sdm_result" where
  "empty_listing n = SdmResponse 200 (DevicesJson (Some []))"

definition example_notifier :: email_notifier where
  "example_notifier =
     \<lparr>enabled = False, host = ''smtp.gmail.com'', port = 587, username = [], password = [],
      to_email = []\<rparr>"

text \<open>
  The application with two configured devices and a cached inventory, and the
  application with no configured device and an empty cache.
\<close>

definition example_app :: app where
  "example_app =
     \<lparr>calendar_poller = example_poller,
      nest_controller = example_controller\<lparr>devices_cache := Some [hallway]\<rparr>,
      settings = \<lparr>nest_device_ids = ''thermo-1, thermo-2'', checkout_buffer_minutes = 30\<rparr>,
      notifier = example_notifier,
      last_poll_time = None, last_action_time = None, last_action_result = None\<rparr>"

definition unconfigured_app :: app where
  "unconfigured_app =
     example_app\<lparr>nest_controller := example_controller,
                  settings := \<lparr>nest_device_ids = [], checkout_buffer_minutes = 30\<rparr>\<rparr>"

section \<open>Properties of the ledger\<close>

lemma processed_events_fold_discard:
  "processed_events (fold discard_entry rs self) = processed_events self - set rs"
  by (induction rs arbitrary: self) (auto simp: discard_entry_def)

lemma processed_events_cleanup:
  "processed_events (cleanup_old_processed self h now) =
     processed_events self - set (to_remove self h now)"
  by (simp add: cleanup_old_processed_def processed_events_fold_discard)

lemma marked_after_mark_processed:
  "reservation_id e \<in> processed_events (mark_processed self e t)"
  by (simp add: mark_processed_def)

lemma apply_ledger_op_keeps:
  "rid \<in> processed_events self \<Longrightarrow> \<not> evicts opn self rid \<Longrightarrow>
     rid \<in> processed_events (apply_ledger_op self opn)"
  by (cases opn) (auto simp: mark_processed_def processed_events_cleanup)

lemma run_ledger_keeps:
  "rid \<in> processed_events self \<Longrightarrow> never_evicted rid self ops \<Longrightarrow>
     rid \<in> processed_events (run_ledger self ops)"
  by (induction ops arbitrary: self) (auto simp: apply_ledger_op_keeps)

lemma processed_timestamps_fold_discard:
  "processed_timestamps (fold discard_entry rs self) =
     fold AList.delete rs (processed_timestamps self)"
  by (induction rs arbitrary: self) (auto simp: discard_entry_def)

lemma keys_delete: "fst ` set (AList.delete k ts) = fst ` set ts - {k}"
  by (induction ts) auto

lemma keys_fold_delete:
  "fst ` set (fold AList.delete rs ts) = fst ` set ts - set rs"
  by (induction rs arbitrary: ts) (auto simp: keys_delete)

lemma distinct_fold_delete:
  "distinct (map fst ts) \<Longrightarrow> distinct (map fst (fold AList.delete rs ts))"
  by (induction rs arbitrary: ts) (auto simp: distinct_delete)

text \<open>
  The invariant holds of a new poller and every operation keeps it, so it holds of
  every ledger the program reaches.
\<close>

lemma ledger_consistent_new: "ledger_consistent (CalendarPoller url keyword)"
  by (simp add: ledger_consistent_def CalendarPoller_def)

lemma ledger_consistent_mark_processed:
  "ledger_consistent self \<Longrightarrow> ledger_consistent (mark_processed self e t)"
  using dom_update[of "reservation_id e" t "processed_timestamps self"]
  by (auto simp: ledger_consistent_def mark_processed_def distinct_update)

lemma ledger_consistent_cleanup:
  "ledger_consistent self \<Longrightarrow> ledger_consistent (cleanup_old_processed self h now)"
  by (simp add: ledger_consistent_def cleanup_old_processed_def distinct_fold_delete
      processed_timestamps_fold_discard processed_events_fold_discard keys_fold_delete)

lemma recorded_after_mark_processed:
  "map_of (processed_timestamps (mark_processed self e T)) (reservation_id e) = Some T"
  by (simp add: mark_processed_def update_conv')

lemma to_remove_iff:
  assumes "distinct (map fst (processed_timestamps self))"
    and "map_of (processed_timestamps self) rid = Some T"
  shows "rid \<in> set (to_remove self h now) \<longleftrightarrow> T < now - timedelta_hours h"
proof -
  have only: "\<And>t. (rid, t) \<in> set (processed_timestamps self) \<longleftrightarrow> t = T"
    using assms(2) map_of_eq_Some_iff[OF assms(1)] by (metis option.inject)
  have "rid \<in> set (to_remove self h now) \<longleftrightarrow>
        (\<exists>t. (rid, t) \<in> set (processed_timestamps self) \<and> t < now - timedelta_hours h)"
    by (force simp: to_remove_def Let_def)
  then show ?thesis
    by (simp add: only)
qed

lemma recorded_is_marked:
  "ledger_consistent self \<Longrightarrow> map_of (processed_timestamps self) rid = Some T \<Longrightarrow>
     rid \<in> processed_events self"
proof -
  assume c: "ledger_consistent self" and r: "map_of (processed_timestamps self) rid = Some T"
  have "(rid, T) \<in> set (processed_timestamps self)"
    using r by (rule map_of_SomeD)
  then have "rid \<in> set (map fst (processed_timestamps self))"
    by (simp add: image_iff) (rule bexI[of _ "(rid, T)"], simp_all)
  then show ?thesis
    using c by (simp only: ledger_consistent_def)
qed

subsection \<open>C1: marked ids are excluded until evicted\<close>

text \<open>
  C1. \<open>filter_unprocessed\<close> never returns an event whose id is in the processed set; and
  from the state right after \<open>mark_processed e\<close>, through any trace of ledger operations
  (markings, cleanups, filterings) in which no cleanup evicts the id of \<open>e\<close>,
  \<open>filter_unprocessed\<close> on any list returns no event with that id.
\<close>

theorem ledger_exclusion_invariant:
  "(\<forall>x \<in> set (filter_unprocessed self events). reservation_id x \<notin> processed_events self) \<and>
   (never_evicted (reservation_id e) (mark_processed self e t) ops \<longrightarrow>
      (\<forall>x \<in> set (filter_unprocessed (run_ledger (mark_processed self e t) ops) events).
          reservation_id x \<noteq> reservation_id e))"
  using run_ledger_keeps[OF marked_after_mark_processed, of e self t ops]
  by (auto simp: filter_unprocessed_def)

theorem ledger_exclusion_invariant_witness:
  "never_evicted (reservation_id example_event) (mark_processed example_poller example_event 0)
     [CleanupOldProcessed 24 (timedelta_hours 24), MarkProcessed other_event 5,
      FilterUnprocessed [example_event], CleanupOldProcessed 24 (timedelta_hours 24)] \<and>
   refetched_event \<notin> set (filter_unprocessed
     (run_ledger (mark_processed example_poller example_event 0)
        [CleanupOldProcessed 24 (timedelta_hours 24), MarkProcessed other_event 5,
         FilterUnprocessed [example_event], CleanupOldProcessed 24 (timedelta_hours 24)])
     [refetched_event, other_event, example_event])"
proof -
  let ?ops = "[CleanupOldProcessed 24 (timedelta_hours 24), MarkProcessed other_event 5,
      FilterUnprocessed [example_event], CleanupOldProcessed 24 (timedelta_hours 24)]"
  have h: "never_evicted (reservation_id example_event)
             (mark_processed example_poller example_event 0) ?ops"
    by (simp add: to_remove_def cleanup_old_processed_def mark_processed_def
        example_poller_def example_event_def other_event_def timedelta_hours_def
        discard_entry_def)
  have same: "reservation_id refetched_event = reservation_id example_event"
    by (simp add: refetched_event_def)
  show ?thesis
    using h same
      ledger_exclusion_invariant[of example_poller "[refetched_event, other_event, example_event]"
        example_event 0 ?ops]
    by blast
qed

subsection \<open>C5: eviction by age\<close>

text \<open>
  C5, as the code has it. \<open>mark_processed\<close> at \<open>T\<close> records \<open>T\<close> for the id. An id for
  which the ledger records \<open>T\<close> is still marked after a cleanup evaluated at \<open>now\<close>
  exactly when \<open>now \<le> T + max_age_hours\<close>: the cleanup removes it only when \<open>now\<close> is
  strictly later than \<open>T + max_age_hours\<close> (entries older than the age, not as old as
  it).
\<close>

theorem eviction_strictly_older:
  "ledger_consistent self \<Longrightarrow>
     ledger_consistent (mark_processed self e T) \<and>
     map_of (processed_timestamps (mark_processed self e T)) (reservation_id e) = Some T \<and>
     (map_of (processed_timestamps self) rid = Some T' \<longrightarrow>
        (rid \<in> processed_events (cleanup_old_processed self max_age_hours now))
        = (now \<le> T' + timedelta_hours max_age_hours))"
proof (intro conjI impI)
  assume c: "ledger_consistent self"
  show "ledger_consistent (mark_processed self e T)"
    using c by (rule ledger_consistent_mark_processed)
  show "map_of (processed_timestamps (mark_processed self e T)) (reservation_id e) = Some T"
    by (rule recorded_after_mark_processed)
  assume r: "map_of (processed_timestamps self) rid = Some T'"
  have d: "distinct (map fst (processed_timestamps self))"
    using c by (simp add: ledger_consistent_def)
  show "(rid \<in> processed_events (cleanup_old_processed self max_age_hours now))
        = (now \<le> T' + timedelta_hours max_age_hours)"
    using to_remove_iff[OF d r, of max_age_hours now] recorded_is_marked[OF c r]
    by (auto simp: processed_events_cleanup)
qed

theorem eviction_strictly_older_witness:
  "ledger_consistent (mark_processed example_poller example_event 7) \<and>
   map_of (processed_timestamps (mark_processed example_poller example_event 7)) ''ABC123''
     = Some 7 \<and>
   ''ABC123'' \<in> processed_events
     (cleanup_old_processed (mark_processed example_poller example_event 7) 24
        (7 + timedelta_hours 24)) \<and>
   ''ABC123'' \<notin> processed_events
     (cleanup_old_processed (mark_processed example_poller example_event 7) 24
        (8 + timedelta_hours 24))"
proof -
  have c: "ledger_consistent example_poller"
    by (simp add: ledger_consistent_def example_poller_def)
  have rid: "reservation_id example_event = ''ABC123''"
    by (simp add: example_event_def)
  have c': "ledger_consistent (mark_processed example_poller example_event 7)"
    and r: "map_of (processed_timestamps (mark_processed example_poller example_event 7))
              ''ABC123'' = Some 7"
    using eviction_strictly_older[OF c, of example_event 7] rid by simp_all
  show ?thesis
    using c' r
      eviction_strictly_older[OF c', of example_event 7 "''ABC123''" 7 24 "7 + timedelta_hours 24"]
      eviction_strictly_older[OF c', of example_event 7 "''ABC123''" 7 24 "8 + timedelta_hours 24"]
    by simp
qed

text \<open>
  The claim's inclusive cutoff fails: a cleanup evaluated exactly at \<open>T + max_age_hours\<close>
  (here \<open>T = 0\<close>, 24 hours) leaves the id marked, and \<open>filter_unprocessed\<close> still drops
  the event.
\<close>

theorem eviction_inclusive_cutoff_counterexample:
  "0 + timedelta_hours 24 \<le> timedelta_hours 24 \<and>
   reservation_id example_event \<in> processed_events
     (cleanup_old_processed (mark_processed example_poller example_event 0) 24
        (timedelta_hours 24)) \<and>
   filter_unprocessed
     (cleanup_old_processed (mark_processed example_poller example_event 0) 24
        (timedelta_hours 24)) [example_event] = []"
  by (simp add: to_remove_def cleanup_old_processed_def mark_processed_def
      filter_unprocessed_def example_poller_def example_event_def timedelta_hours_def)

subsection \<open>C10: no deduplication inside a batch\<close>

text \<open>
  C10. When an id is not marked, \<open>filter_unprocessed\<close> returns every event of the input
  with that id, duplicates included, in input order: the events of the output with the
  id are the events of the input with the id. The call returns a list only; the ledger
  is the same afterwards.
\<close>

theorem filter_unprocessed_keeps_duplicates:
  "rid \<notin> processed_events self \<Longrightarrow>
     filter (\<lambda>e. reservation_id e = rid) (filter_unprocessed self events) =
     filter (\<lambda>e. reservation_id e = rid) events"
  by (induction events) (auto simp: filter_unprocessed_def)

theorem filter_unprocessed_keeps_duplicates_witness:
  "''ABC123'' \<notin> processed_events (mark_processed example_poller other_event 0) \<and>
   filter (\<lambda>e. reservation_id e = ''ABC123'')
     (filter_unprocessed (mark_processed example_poller other_event 0)
        [example_event, other_event, refetched_event, example_event]) =
   [example_event, refetched_event, example_event]"
proof -
  have h: "''ABC123'' \<notin> processed_events (mark_processed example_poller other_event 0)"
    by (simp add: mark_processed_def example_poller_def other_event_def example_event_def)
  show ?thesis
    using h filter_unprocessed_keeps_duplicates[OF h,
        of "[example_event, other_event, refetched_event, example_event]"]
    by (simp add: example_event_def other_event_def refetched_event_def)
qed

section \<open>Properties of the parser and the fetcher\<close>

lemma parse_events_concat:
  "parse_events self isoformat cal b now =
     concat (map (\<lambda>c. parse_events self isoformat [c] b now) cal)"
  by (induction cal) (simp_all add: parse_events_def Let_def)

lemma parse_event_selected:
  assumes "dtstart c = Some ds" "ensure_timezone_aware ds = Inr start"
    "event_end_of c start = Inr end'"
  shows "(\<exists>ev. parse_event self isoformat (now - timedelta_minutes b) now c = Inr (Some ev)) \<longleftrightarrow>
     spec_actionable_window (instant start) (instant end') now b \<and>
     (is_checkout (comp_summary c) \<or> has_trigger self (comp_description c))"
  using assms
  by (auto simp: parse_event_def spec_actionable_window_def Let_def
      split: option.splits sum.splits)

subsection \<open>C2: the time window and the content test\<close>

text \<open>
  C2, as the code has it. \<open>parse_events\<close> decides each entry on its own (its result is
  the concatenation of its results on the single entries). A \<open>VEVENT\<close> whose start is a
  datetime, and whose end is a datetime or absent, is selected exactly when it is in the
  actionable time window and its summary names a checkout or its description holds the
  trigger keyword. So an entry outside the window is excluded whatever its summary and
  description hold, and an entry inside the window is selected only with one of the two
  signals.
\<close>

theorem window_and_content_selection:
  "parse_events self isoformat calendar' buffer_minutes now =
     concat (map (\<lambda>c. parse_events self isoformat [c] buffer_minutes now) calendar') \<and>
   (comp_name c = ''VEVENT'' \<and> dtstart c = Some ds \<and> ensure_timezone_aware ds = Inr start \<and>
    event_end_of c start = Inr end' \<longrightarrow>
      (parse_events self isoformat [c] buffer_minutes now \<noteq> []) =
      (spec_actionable_window (instant start) (instant end') now buffer_minutes \<and>
       (is_checkout (comp_summary c) \<or> has_trigger self (comp_description c))))"
proof (intro conjI impI)
  show "parse_events self isoformat calendar' buffer_minutes now =
     concat (map (\<lambda>c. parse_events self isoformat [c] buffer_minutes now) calendar')"
    by (rule parse_events_concat)
next
  assume h: "comp_name c = ''VEVENT'' \<and> dtstart c = Some ds \<and>
    ensure_timezone_aware ds = Inr start \<and> event_end_of c start = Inr end'"
  have "(parse_events self isoformat [c] buffer_minutes now \<noteq> []) =
        (\<exists>ev. parse_event self isoformat (now - timedelta_minutes buffer_minutes) now c
                = Inr (Some ev))"
    using h
    by (auto simp: parse_events_def events_of_component_def Let_def
        split: sum.splits option.splits)
  then show "(parse_events self isoformat [c] buffer_minutes now \<noteq> []) =
      (spec_actionable_window (instant start) (instant end') now buffer_minutes \<and>
       (is_checkout (comp_summary c) \<or> has_trigger self (comp_description c)))"
    using h parse_event_selected[of c ds start end' self isoformat now buffer_minutes]
    by simp
qed

lemmas text_defs = is_checkout_def has_trigger_def lower_def upper_def lower_char_def
  upper_char_def startswith_def

lemmas entry_defs = checkout_entry_def stale_entry_def meeting_entry_def example_now_def
  example_poller_def timedelta_minutes_def timedelta_hours_def ensure_timezone_aware_def
  event_end_of_def spec_actionable_window_def

theorem window_and_content_selection_witness:
  "spec_actionable_window (example_now - timedelta_minutes 5) (example_now + timedelta_hours 1)
     example_now 30 \<and>
   is_checkout (comp_summary checkout_entry) \<and>
   parse_events example_poller example_isoformat [checkout_entry] 30 example_now \<noteq> [] \<and>
   \<not> spec_actionable_window (example_now - timedelta_minutes 31)
       (example_now - timedelta_minutes 1) example_now 30 \<and>
   parse_events example_poller example_isoformat [stale_entry] 30 example_now = []"
proof -
  have w: "spec_actionable_window (example_now - timedelta_minutes 5)
             (example_now + timedelta_hours 1) example_now 30"
    and nw: "\<not> spec_actionable_window (example_now - timedelta_minutes 31)
               (example_now - timedelta_minutes 1) example_now 30"
    by (simp_all add: entry_defs)
  have k: "is_checkout (comp_summary checkout_entry)"
    by (simp add: checkout_entry_def text_defs)
  have a: "comp_name checkout_entry = ''VEVENT'' \<and>
      dtstart checkout_entry =
        Some (Aware \<lparr>instant = example_now - timedelta_minutes 5, utcoffset = 0\<rparr>) \<and>
      ensure_timezone_aware (Aware \<lparr>instant = example_now - timedelta_minutes 5, utcoffset = 0\<rparr>)
        = Inr \<lparr>instant = example_now - timedelta_minutes 5, utcoffset = 0\<rparr> \<and>
      event_end_of checkout_entry \<lparr>instant = example_now - timedelta_minutes 5, utcoffset = 0\<rparr>
        = Inr \<lparr>instant = example_now + timedelta_hours 1, utcoffset = 0\<rparr>"
    by (simp add: checkout_entry_def ensure_timezone_aware_def event_end_of_def)
  have b: "comp_name stale_entry = ''VEVENT'' \<and>
      dtstart stale_entry = Some (Naive (example_now - timedelta_minutes 31)) \<and>
      ensure_timezone_aware (Naive (example_now - timedelta_minutes 31))
        = Inr \<lparr>instant = example_now - timedelta_minutes 31, utcoffset = 0\<rparr> \<and>
      event_end_of stale_entry \<lparr>instant = example_now - timedelta_minutes 31, utcoffset = 0\<rparr>
        = Inr \<lparr>instant = example_now - timedelta_minutes 1, utcoffset = 0\<rparr>"
    by (simp add: stale_entry_def checkout_entry_def ensure_timezone_aware_def event_end_of_def)
  show ?thesis
    using w nw k a b
      window_and_content_selection[of example_poller example_isoformat "[]" 30 example_now
        checkout_entry "Aware \<lparr>instant = example_now - timedelta_minutes 5, utcoffset = 0\<rparr>"
        "\<lparr>instant = example_now - timedelta_minutes 5, utcoffset = 0\<rparr>"
        "\<lparr>instant = example_now + timedelta_hours 1, utcoffset = 0\<rparr>"]
      window_and_content_selection[of example_poller example_isoformat "[]" 30 example_now
        stale_entry "Naive (example_now - timedelta_minutes 31)"
        "\<lparr>instant = example_now - timedelta_minutes 31, utcoffset = 0\<rparr>"
        "\<lparr>instant = example_now - timedelta_minutes 1, utcoffset = 0\<rparr>"]
    by simp
qed

text \<open>
  The claim's equivalence fails from right to left: the meeting starts at \<open>now\<close>, so it
  is in the time window, and it is not selected, since neither its summary nor its
  description marks a checkout.
\<close>

theorem window_alone_counterexample:
  "comp_name meeting_entry = ''VEVENT'' \<and>
   dtstart meeting_entry = Some (Aware \<lparr>instant = example_now, utcoffset = 0\<rparr>) \<and>
   spec_actionable_window example_now (example_now + timedelta_hours 1) example_now 30 \<and>
   parse_events example_poller example_isoformat [meeting_entry] 30 example_now = []"
  by (simp add: parse_events_def events_of_component_def parse_event_def entry_defs text_defs)

section \<open>Properties of the device client\<close>

lemma call_with_retry_step:
  "call_with_retry m n f s =
     (case f s of
        (Inr v, s') \<Rightarrow> (Inr v, s')
      | (Inl e, s') \<Rightarrow>
          if \<not> retry_if_exception_type e then (Inl e, s')
          else if m \<le> n then (Inl (RetryError e), s')
               else call_with_retry m (Suc n) f s')"
  by (subst call_with_retry.simps)
    (simp add: stop_after_attempt_def split: prod.splits sum.splits)

text \<open>The three attempts of the decorator, written out.\<close>

lemma retry_unroll:
  "retry f s =
     (case f s of
        (Inr v, s1) \<Rightarrow> (Inr v, s1)
      | (Inl e1, s1) \<Rightarrow>
          if \<not> retry_if_exception_type e1 then (Inl e1, s1)
          else (case f s1 of
                  (Inr v, s2) \<Rightarrow> (Inr v, s2)
                | (Inl e2, s2) \<Rightarrow>
                    if \<not> retry_if_exception_type e2 then (Inl e2, s2)
                    else (case f s2 of
                            (Inr v, s3) \<Rightarrow> (Inr v, s3)
                          | (Inl e3, s3) \<Rightarrow>
                              if \<not> retry_if_exception_type e3 then (Inl e3, s3)
                              else (Inl (RetryError e3), s3))))"
  unfolding retry_def
  apply (subst call_with_retry_step)
  apply (subst call_with_retry_step)
  apply (subst call_with_retry_step)
  apply (simp split: prod.splits sum.splits)
  done

lemma retry_returns:
  "retry f s = (Inr v, s') \<Longrightarrow> \<exists>s0. f s0 = (Inr v, s')"
  by (subst (asm) retry_unroll) (auto split: prod.splits sum.splits if_splits)

lemmas world_defs = read_clock_def send_sdm_def refresh_exchange_def get_feed_def

lemmas token_defs = get_headers_def get_auth_header_def get_valid_token_def needs_refresh_def
  expired_def REFRESH_THRESHOLD_def timedelta_hours_def timedelta_minutes_def

lemmas client_defs = turn_off_thermostats_def turn_off_thermostat_def set_thermostat_mode_def
  set_thermostat_mode_attempt_def list_devices_def list_devices_attempt_def
  list_devices_fetch_def retry_unroll raise_for_status_def retry_if_exception_type_def

lemmas example_defs = example_controller_def example_token_manager_def scripted_world_def
  NestController_def microsecond_clock_def refresh_granted_def refresh_denied_def
  feed_unavailable_def feed_malformed_def always_ok_def always_no_content_def
  always_server_error_def ok_timeout_ok_def unauthorized_then_ok_def
  bad_request_then_listing_def empty_listing_def

subsection \<open>C3: the fan-out\<close>

lemma length_individual_outcomes: "length (individual_outcomes ids s) = length ids"
  by (induction ids arbitrary: s) auto

lemma length_own_outcomes: "length (own_outcomes ids s) = length ids"
  by (simp add: own_outcomes_def length_individual_outcomes)

lemma keys_own_outcomes: "map fst (own_outcomes ids s) = ids"
  by (simp add: own_outcomes_def length_individual_outcomes)

lemma turn_off_loop_char:
  "turn_off_loop ids acc s =
     (fold (\<lambda>(k, v). AList.update k v) (own_outcomes ids s) acc, state_after ids s)"
proof (induction ids arbitrary: acc s)
  case Nil
  then show ?case by (simp add: own_outcomes_def)
next
  case (Cons d ds)
  obtain r s' where r: "turn_off_thermostat d s = (r, s')"
    by (cases "turn_off_thermostat d s")
  show ?case
    using Cons[of _ s'] r
    by (cases r) (simp_all add: own_outcomes_def succeeded_def)
qed

lemma fold_update_keys:
  "fst ` set (fold (\<lambda>(k, v). AList.update k v) ps acc) = fst ` set acc \<union> fst ` set ps"
proof (induction ps arbitrary: acc)
  case Nil
  then show ?case by simp
next
  case (Cons p ps)
  obtain k v where p: "p = (k, v)" by (cases p)
  have "fst ` set (fold (\<lambda>(k, v). AList.update k v) ps (AList.update k v acc)) =
        ({k} \<union> fst ` set acc) \<union> fst ` set ps"
    by (simp only: Cons.IH dom_update)
  then show ?case
    by (simp add: p)
qed

lemma fold_update_distinct:
  "distinct (map fst acc) \<Longrightarrow> distinct (map fst (fold (\<lambda>(k, v). AList.update k v) ps acc))"
  by (induction ps arbitrary: acc) (auto simp: distinct_update)

lemma update_fresh: "k \<notin> fst ` set al \<Longrightarrow> AList.update k v al = al @ [(k, v)]"
  by (induction al) auto

lemma fold_update_fresh:
  "distinct (map fst ps) \<Longrightarrow> fst ` set ps \<inter> fst ` set acc = {} \<Longrightarrow>
     fold (\<lambda>(k, v). AList.update k v) ps acc = acc @ ps"
proof (induction ps arbitrary: acc)
  case Nil
  then show ?case by simp
next
  case (Cons p ps)
  obtain k v where p: "p = (k, v)" by (cases p)
  have fresh: "k \<notin> fst ` set acc"
    using Cons.prems p by auto
  have "fst ` set ps \<inter> fst ` set (acc @ [(k, v)]) = {}"
    using Cons.prems p by auto
  then show ?case
    using Cons.IH[of "acc @ [(k, v)]"] Cons.prems p fresh by (simp add: update_fresh)
qed

lemma fold_update_map_of:
  "map_of (fold (\<lambda>(k, v). AList.update k v) ps acc) = map_of acc ++ map_of (rev ps)"
proof (induction ps arbitrary: acc)
  case Nil
  then show ?case by simp
next
  case (Cons p ps)
  obtain k v where p: "p = (k, v)" by (cases p)
  show ?case
    by (simp add: Cons.IH p update_conv' fun_eq_iff map_add_def split: option.splits)
qed

text \<open>
  C3, as the code has it. \<open>turn_off_thermostats\<close> returns a mapping and never an
  exception, and leaves the state that the calls on every id, one after the other, leave
  (no call is skipped after a failure). The keys of the mapping are the ids of the list,
  each once; every id maps to the individual outcome of its last occurrence, false when
  that call returned false or raised. When the ids are pairwise distinct the mapping is
  the list of the ids, each with its own outcome, so its size is the length of the list.
\<close>

theorem turn_off_thermostats_accounting:
  "\<exists>res. turn_off_thermostats device_ids s = (Inr res, state_after device_ids s) \<and>
      fst ` set res = set device_ids \<and> distinct (map fst res) \<and>
      map_of res = map_of (rev (own_outcomes device_ids s)) \<and>
      (distinct device_ids \<longrightarrow>
         res = own_outcomes device_ids s \<and> length res = length device_ids)"
proof -
  let ?res = "fold (\<lambda>(k, v). AList.update k v) (own_outcomes device_ids s) []"
  have run: "turn_off_thermostats device_ids s = (Inr ?res, state_after device_ids s)"
    by (simp add: turn_off_thermostats_def turn_off_loop_char)
  have "fst ` set ?res = set (map fst (own_outcomes device_ids s))"
    by (simp only: fold_update_keys) simp
  then have keys: "fst ` set ?res = set device_ids"
    by (simp only: keys_own_outcomes)
  have dist: "distinct (map fst ?res)"
    by (rule fold_update_distinct) simp
  have look: "map_of ?res = map_of (rev (own_outcomes device_ids s))"
    by (simp add: fold_update_map_of)
  have all: "distinct device_ids \<longrightarrow>
      ?res = own_outcomes device_ids s \<and> length ?res = length device_ids"
    using fold_update_fresh[of "own_outcomes device_ids s" "[]"]
    by (simp add: keys_own_outcomes length_own_outcomes)
  show ?thesis
    using run keys dist look all by blast
qed

theorem turn_off_thermostats_accounting_witness:
  "distinct [''thermo-1'', ''thermo-2'', ''thermo-3''] \<and>
   own_outcomes [''thermo-1'', ''thermo-2'', ''thermo-3'']
       (example_controller, scripted_world ok_timeout_ok)
     = [(''thermo-1'', True), (''thermo-2'', False), (''thermo-3'', True)] \<and>
   fst (turn_off_thermostats [''thermo-1'', ''thermo-2'', ''thermo-3'']
          (example_controller, scripted_world ok_timeout_ok))
     = Inr [(''thermo-1'', True), (''thermo-2'', False), (''thermo-3'', True)]"
proof -
  have o: "own_outcomes [''thermo-1'', ''thermo-2'', ''thermo-3'']
       (example_controller, scripted_world ok_timeout_ok)
     = [(''thermo-1'', True), (''thermo-2'', False), (''thermo-3'', True)]"
    by (simp add: own_outcomes_def succeeded_def client_defs token_defs world_defs example_defs)
  show ?thesis
    using o turn_off_thermostats_accounting[of "[''thermo-1'', ''thermo-2'', ''thermo-3'']"
        "(example_controller, scripted_world ok_timeout_ok)"]
    by auto
qed

text \<open>
  The size of the mapping is not the length of the list when an id occurs twice: for
  the two ids \<open>thermo-1, thermo-1\<close> (as \<open>NEST_DEVICE_IDS=thermo-1,thermo-1\<close> gives them)
  the mapping has one entry.
\<close>

theorem turn_off_thermostats_size_counterexample:
  "length [''thermo-1'', ''thermo-1''] = 2 \<and>
   fst (turn_off_thermostats [''thermo-1'', ''thermo-1'']
          (example_controller, scripted_world always_ok))
     = Inr [(''thermo-1'', True)]"
  by (simp add: client_defs token_defs world_defs example_defs)

subsection \<open>C4: what is retried\<close>

text \<open>
  C4, as the code has it. The retried failures are exactly the exceptions of class
  \<open>HTTPStatusError\<close> and \<open>ConnectError\<close>; \<open>raise_for_status\<close> raises \<open>HTTPStatusError\<close> for
  the statuses 400 and 401 as for the others outside 2xx, so they are retried too.
  \<open>list_devices\<close> and \<open>set_thermostat_mode\<close> are their bodies under this policy: an
  attempt that returns ends the call; an attempt that raises outside the two classes
  ends the call with its exception; an attempt that raises inside them is followed by
  the next attempt, and the third such failure ends the call with \<open>RetryError\<close>.
\<close>

theorem retry_policy:
  "(retry_if_exception_type e \<longleftrightarrow>
      (\<exists>status_code. e = HTTPStatusError status_code) \<or> e = ConnectError) \<and>
   raise_for_status 400 = Inl (HTTPStatusError 400) \<and>
   raise_for_status 401 = Inl (HTTPStatusError 401) \<and>
   list_devices force_refresh = retry (list_devices_attempt force_refresh) \<and>
   set_thermostat_mode dev mode = retry (set_thermostat_mode_attempt dev mode) \<and>
   retry f s =
     (case f s of
        (Inr v, s1) \<Rightarrow> (Inr v, s1)
      | (Inl e1, s1) \<Rightarrow>
          if \<not> retry_if_exception_type e1 then (Inl e1, s1)
          else (case f s1 of
                  (Inr v, s2) \<Rightarrow> (Inr v, s2)
                | (Inl e2, s2) \<Rightarrow>
                    if \<not> retry_if_exception_type e2 then (Inl e2, s2)
                    else (case f s2 of
                            (Inr v, s3) \<Rightarrow> (Inr v, s3)
                          | (Inl e3, s3) \<Rightarrow>
                              if \<not> retry_if_exception_type e3 then (Inl e3, s3)
                              else (Inl (RetryError e3), s3))))"
proof -
  have cls: "retry_if_exception_type e \<longleftrightarrow>
      (\<exists>status_code. e = HTTPStatusError status_code) \<or> e = ConnectError"
    by (cases e) (simp_all add: retry_if_exception_type_def)
  have l: "list_devices force_refresh = retry (list_devices_attempt force_refresh)"
    by (simp add: fun_eq_iff list_devices_def)
  have m: "set_thermostat_mode dev mode = retry (set_thermostat_mode_attempt dev mode)"
    by (simp add: fun_eq_iff set_thermostat_mode_def)
  show ?thesis
    using cls l m retry_unroll[of f s] by (simp add: raise_for_status_def)
qed

text \<open>
  The policy at work: a timeout on the first attempt ends the call at once (one request
  sent); a 500 on every attempt ends the call with \<open>RetryError\<close> after three requests.
\<close>

theorem retry_policy_witness:
  "set_thermostat_mode ''thermo-1'' ''OFF''
     (example_controller, scripted_world ok_timeout_ok\<lparr>sdm_requests := [GetDevices]\<rparr>)
   = (Inl TimeoutException,
      (example_controller,
       scripted_world ok_timeout_ok
         \<lparr>clock_reads := 1, sdm_requests := [GetDevices, ExecuteCommand ''thermo-1'' ''OFF'']\<rparr>)) \<and>
   set_thermostat_mode ''thermo-1'' ''OFF'' (example_controller, scripted_world always_server_error)
   = (Inl (RetryError (HTTPStatusError 500)),
      (example_controller,
       scripted_world always_server_error
         \<lparr>clock_reads := 3,
          sdm_requests := [ExecuteCommand ''thermo-1'' ''OFF'', ExecuteCommand ''thermo-1'' ''OFF'',
                           ExecuteCommand ''thermo-1'' ''OFF'']\<rparr>))"
  using retry_policy[of ConnectError False "''thermo-1''" "''OFF''"
      "set_thermostat_mode_attempt ''thermo-1'' ''OFF''"
      "(example_controller, scripted_world ok_timeout_ok\<lparr>sdm_requests := [GetDevices]\<rparr>)"]
    retry_policy[of ConnectError False "''thermo-1''" "''OFF''"
      "set_thermostat_mode_attempt ''thermo-1'' ''OFF''"
      "(example_controller, scripted_world always_server_error)"]
  by (simp add: set_thermostat_mode_attempt_def raise_for_status_def
      retry_if_exception_type_def token_defs world_defs example_defs)

text \<open>
  The claim fails for 401 and 400: a mode-set command answered 401 is sent again (and
  succeeds on the second attempt here, after two requests), and a listing answered 400
  is sent again.
\<close>

theorem auth_rejection_retried_counterexample:
  "unauthorized_then_ok 0 = SdmResponse 401 NotJson \<and>
   fst (set_thermostat_mode ''thermo-1'' ''OFF''
          (example_controller, scripted_world unauthorized_then_ok)) = Inr True \<and>
   sdm_requests (snd (snd (set_thermostat_mode ''thermo-1'' ''OFF''
          (example_controller, scripted_world unauthorized_then_ok))))
     = [ExecuteCommand ''thermo-1'' ''OFF'', ExecuteCommand ''thermo-1'' ''OFF''] \<and>
   bad_request_then_listing 0 = SdmResponse 400 NotJson \<and>
   fst (list_devices True (example_controller, scripted_world bad_request_then_listing))
     = Inr [hallway] \<and>
   sdm_requests (snd (snd (list_devices True
          (example_controller, scripted_world bad_request_then_listing))))
     = [GetDevices, GetDevices]"
  by (simp add: client_defs token_defs world_defs example_defs thermostats_of_def
      thermostat_of_def hallway_json_def hallway_def last_segment_def Let_def)

subsection \<open>C9: success is status 200 only\<close>

lemma attempt_returns:
  "set_thermostat_mode_attempt dev mode s = (Inr b, s') \<Longrightarrow>
     sdm_requests (snd s') \<noteq> [] \<and>
     (\<exists>status_code body.
        sdm_results (snd s') (length (sdm_requests (snd s')) - 1) = SdmResponse status_code body \<and>
        200 \<le> status_code \<and> status_code \<le> 299 \<and> (b \<longleftrightarrow> status_code = 200))"
  by (auto simp: set_thermostat_mode_attempt_def send_sdm_def raise_for_status_def Let_def
      split: prod.splits sum.splits sdm_result.splits if_splits)

text \<open>
  C9. When the headers are there and the command is answered with a 2xx status other
  than 200, \<open>set_thermostat_mode\<close> returns false, raises nothing and sends nothing more.
  Whenever \<open>set_thermostat_mode\<close> returns, the last request it sent was answered with a
  2xx status, and the value returned is true exactly when that status is 200.
\<close>

theorem set_thermostat_mode_true_only_on_200:
  "(get_headers self (fst (read_clock w)) (snd (read_clock w)) = (Inr headers, self1, w2) \<and>
    sdm_results w2 (length (sdm_requests w2)) = SdmResponse status_code body \<and>
    200 \<le> status_code \<and> status_code \<le> 299 \<and> status_code \<noteq> 200 \<longrightarrow>
      set_thermostat_mode dev mode (self, w) =
        (Inr False, (self1, w2\<lparr>sdm_requests := sdm_requests w2 @ [ExecuteCommand dev mode]\<rparr>))) \<and>
   (set_thermostat_mode dev mode s = (Inr b, s') \<longrightarrow>
      sdm_requests (snd s') \<noteq> [] \<and>
      (\<exists>answered content.
         sdm_results (snd s') (length (sdm_requests (snd s')) - 1) = SdmResponse answered content \<and>
         200 \<le> answered \<and> answered \<le> 299 \<and> (b \<longleftrightarrow> answered = 200)))"
proof (intro conjI impI)
  assume h: "get_headers self (fst (read_clock w)) (snd (read_clock w)) = (Inr headers, self1, w2) \<and>
    sdm_results w2 (length (sdm_requests w2)) = SdmResponse status_code body \<and>
    200 \<le> status_code \<and> status_code \<le> 299 \<and> status_code \<noteq> 200"
  have "set_thermostat_mode_attempt dev mode (self, w) =
        (Inr False, (self1, w2\<lparr>sdm_requests := sdm_requests w2 @ [ExecuteCommand dev mode]\<rparr>))"
    using h
    by (simp add: set_thermostat_mode_attempt_def send_sdm_def raise_for_status_def
        split_beta Let_def)
  then show "set_thermostat_mode dev mode (self, w) =
        (Inr False, (self1, w2\<lparr>sdm_requests := sdm_requests w2 @ [ExecuteCommand dev mode]\<rparr>))"
    by (simp add: set_thermostat_mode_def retry_unroll)
next
  assume t: "set_thermostat_mode dev mode s = (Inr b, s')"
  then have "retry (set_thermostat_mode_attempt dev mode) s = (Inr b, s')"
    by (simp add: set_thermostat_mode_def)
  from retry_returns[OF this]
  obtain s0 where "set_thermostat_mode_attempt dev mode s0 = (Inr b, s')" ..
  then have r: "sdm_requests (snd s') \<noteq> [] \<and>
     (\<exists>answered content.
        sdm_results (snd s') (length (sdm_requests (snd s')) - 1) = SdmResponse answered content \<and>
        200 \<le> answered \<and> answered \<le> 299 \<and> (b \<longleftrightarrow> answered = 200))"
    by (rule attempt_returns)
  show "sdm_requests (snd s') \<noteq> []"
    using r by (rule conjunct1)
  show "\<exists>answered content.
         sdm_results (snd s') (length (sdm_requests (snd s')) - 1) = SdmResponse answered content \<and>
         200 \<le> answered \<and> answered \<le> 299 \<and> (b \<longleftrightarrow> answered = 200)"
    using r by (rule conjunct2)
qed

theorem set_thermostat_mode_true_only_on_200_witness:
  "always_no_content 0 = SdmResponse 204 NotJson \<and>
   set_thermostat_mode ''thermo-1'' ''OFF'' (example_controller, scripted_world always_no_content)
   = (Inr False,
      (example_controller,
       scripted_world always_no_content
         \<lparr>clock_reads := 1, sdm_requests := [ExecuteCommand ''thermo-1'' ''OFF'']\<rparr>))"
proof -
  let ?w = "scripted_world always_no_content"
  have h: "get_headers example_controller (fst (read_clock ?w)) (snd (read_clock ?w)) =
      (Inr [(''Authorization'', ''Bearer ya29.held''), (''Content-Type'', ''application/json'')],
       example_controller, ?w\<lparr>clock_reads := 1\<rparr>)"
    by (simp add: token_defs world_defs example_defs)
  have r: "sdm_results (?w\<lparr>clock_reads := 1\<rparr>) (length (sdm_requests (?w\<lparr>clock_reads := 1\<rparr>)))
      = SdmResponse 204 NotJson"
    by (simp add: example_defs)
  show ?thesis
    using h r
      set_thermostat_mode_true_only_on_200[of example_controller ?w
        "[(''Authorization'', ''Bearer ya29.held''), (''Content-Type'', ''application/json'')]"
        example_controller "?w\<lparr>clock_reads := 1\<rparr>" 204 NotJson "''thermo-1''" "''OFF''"]
    by (simp add: example_defs)
qed

section \<open>Properties of the token provider\<close>

text \<open>
  C6. \<open>get_valid_token\<close> performs one refresh exchange when no token is held, the held
  token is expired or its expiry is less than ten minutes after \<open>now\<close>, and none
  otherwise (the code's test, with the library's \<open>expired\<close>, is this condition); without a refresh it returns the held token and leaves the world as it was.
  With a held token whose expiry is \<open>now\<close> plus five minutes it performs exactly one
  exchange and returns the token the exchange grants. When the exchange raises,
  \<open>get_valid_token\<close> raises the same exception after that one exchange.
\<close>

theorem get_valid_token_refresh_condition:
  "refresh_requests (snd (snd (get_valid_token self now w))) =
     refresh_requests w + (if spec_refresh_condition self now then 1 else 0) \<and>
   (\<not> spec_refresh_condition self now \<longrightarrow>
      (\<exists>c t. credentials self = Some c \<and> token c = Some t \<and>
             fst (get_valid_token self now w) = Inr (Some t)) \<and>
      snd (snd (get_valid_token self now w)) = w) \<and>
   (credentials self = Some held \<and> token held = Some t' \<and>
    expiry held = Some (now + timedelta_minutes 5) \<longrightarrow>
      refresh_requests (snd (snd (get_valid_token self now w))) = refresh_requests w + 1 \<and>
      (refresh_results w (refresh_requests w) = RefreshGrants fresh new_expiry \<longrightarrow>
         fst (get_valid_token self now w) = Inr (Some fresh))) \<and>
   (spec_refresh_condition self now \<and>
    refresh_results w (refresh_requests w) = RefreshRaises e \<longrightarrow>
      fst (get_valid_token self now w) = Inl e \<and>
      refresh_requests (snd (snd (get_valid_token self now w))) = refresh_requests w + 1)"
  by (cases "credentials self"; cases "refresh_results w (refresh_requests w)")
     (auto simp: get_valid_token_def spec_refresh_condition_def create_credentials_def
       refresh_exchange_def needs_refresh_def expired_def REFRESH_THRESHOLD_def
       timedelta_minutes_def Let_def split_beta
       split: option.splits)

theorem get_valid_token_refresh_condition_witness:
  "expiry (the (credentials example_token_manager)) = Some (timedelta_minutes 55 + timedelta_minutes 5) \<and>
   refresh_requests (snd (snd (get_valid_token example_token_manager (timedelta_minutes 55)
     (scripted_world always_ok)))) = 1 \<and>
   fst (get_valid_token example_token_manager (timedelta_minutes 55) (scripted_world always_ok))
     = Inr (Some ''ya29.fresh'') \<and>
   \<not> spec_refresh_condition example_token_manager (timedelta_minutes 50) \<and>
   get_valid_token example_token_manager (timedelta_minutes 50) (scripted_world always_ok)
     = (Inr (Some ''ya29.held''), example_token_manager, scripted_world always_ok) \<and>
   spec_refresh_condition example_token_manager (timedelta_minutes 55) \<and>
   fst (get_valid_token example_token_manager (timedelta_minutes 55)
     (scripted_world always_ok\<lparr>refresh_results := refresh_denied\<rparr>)) = Inl RefreshError \<and>
   refresh_requests (snd (snd (get_valid_token example_token_manager (timedelta_minutes 55)
     (scripted_world always_ok\<lparr>refresh_results := refresh_denied\<rparr>)))) = 1"
  using get_valid_token_refresh_condition[of example_token_manager "timedelta_minutes 55"
      "scripted_world always_ok" "the (credentials example_token_manager)" "''ya29.held''"
      "''ya29.fresh''" "Some (timedelta_hours 2)" RefreshError]
    get_valid_token_refresh_condition[of example_token_manager "timedelta_minutes 50"
      "scripted_world always_ok" "the (credentials example_token_manager)" "''ya29.held''"
      "''ya29.fresh''" "Some (timedelta_hours 2)" RefreshError]
    get_valid_token_refresh_condition[of example_token_manager "timedelta_minutes 55"
      "scripted_world always_ok\<lparr>refresh_results := refresh_denied\<rparr>"
      "the (credentials example_token_manager)" "''ya29.held''"
      "''ya29.fresh''" "Some (timedelta_hours 2)" RefreshError]
  by (simp add: spec_refresh_condition_def token_defs world_defs example_defs)

section \<open>Properties of the orchestrator\<close>

lemma fetch_calendar_try_failure: "feed_failure r \<Longrightarrow> \<exists>e. fetch_calendar_try r = Inl e"
  by (cases r)
    (auto simp: feed_failure_def fetch_calendar_try_def raise_for_status_def from_ical_def
      split: ical_text.splits)

lemma fetch_calendar_returns: "\<exists>c. fst (fetch_calendar self w) = Inr c"
  by (simp add: fetch_calendar_def get_feed_def split: sum.splits)

lemma fetch_calendar_failure:
  "feed_failure (feed_results w (feed_requests w)) \<Longrightarrow>
     fetch_calendar self w = (Inr None, w\<lparr>feed_requests := Suc (feed_requests w)\<rparr>)"
  using fetch_calendar_try_failure[of "feed_results w (feed_requests w)"]
  by (auto simp: fetch_calendar_def get_feed_def)

lemma get_actionable_checkouts_failure:
  "feed_failure (feed_results w (feed_requests w)) \<Longrightarrow>
     get_actionable_checkouts self isoformat b w =
       (Inr [], cleanup_old_processed self 24 (clock w (clock_reads w)),
        w\<lparr>clock_reads := Suc (clock_reads w), feed_requests := Suc (feed_requests w)\<rparr>)"
  using fetch_calendar_failure[of "snd (read_clock w)"
      "cleanup_old_processed self 24 (clock w (clock_reads w))"]
  by (simp add: get_actionable_checkouts_def read_clock_def)

subsection \<open>C7: a feed failure is a skipped tick\<close>

text \<open>
  C7. \<open>fetch_calendar\<close> always returns and never raises. When the fetch fails (the GET
  raises, the status is not 2xx or the body does not parse) it returns \<open>None\<close>;
  \<open>get_actionable_checkouts\<close> then returns the empty list, and the tick of
  \<open>poll_calendar_job\<close> changes the ledger by the cleanup only (so marks nothing), sends
  no request to the device API, performs no token exchange, notifies nobody and leaves
  the last action result as it was.
\<close>

theorem feed_failure_is_null:
  "(\<exists>c. fst (fetch_calendar self w) = Inr c) \<and>
   (feed_failure (feed_results w (feed_requests w)) \<longrightarrow>
      fst (fetch_calendar self w) = Inr None \<and>
      fst (get_actionable_checkouts self isoformat buffer_minutes w) = Inr [] \<and>
      calendar_poller (fst (poll_calendar_job g isoformat w)) =
        cleanup_old_processed (calendar_poller g) 24 (clock w (Suc (clock_reads w))) \<and>
      processed_events (calendar_poller (fst (poll_calendar_job g isoformat w)))
        \<subseteq> processed_events (calendar_poller g) \<and>
      sdm_requests (snd (poll_calendar_job g isoformat w)) = sdm_requests w \<and>
      refresh_requests (snd (poll_calendar_job g isoformat w)) = refresh_requests w \<and>
      notifications (snd (poll_calendar_job g isoformat w)) = notifications w \<and>
      last_action_result (fst (poll_calendar_job g isoformat w)) = last_action_result g)"
proof (intro conjI impI)
  show "\<exists>c. fst (fetch_calendar self w) = Inr c"
    by (rule fetch_calendar_returns)
next
  assume f: "feed_failure (feed_results w (feed_requests w))"
  let ?w1 = "snd (read_clock w)"
  have f1: "feed_failure (feed_results ?w1 (feed_requests ?w1))"
    using f by (simp add: read_clock_def)
  have job: "poll_calendar_job g isoformat w =
      (g\<lparr>last_poll_time := Some (clock w (clock_reads w)),
         calendar_poller :=
           cleanup_old_processed (calendar_poller g) 24 (clock w (Suc (clock_reads w)))\<rparr>,
       w\<lparr>clock_reads := Suc (Suc (clock_reads w)), feed_requests := Suc (feed_requests w)\<rparr>)"
    using get_actionable_checkouts_failure[OF f1, of "calendar_poller g" isoformat
        "checkout_buffer_minutes (settings g)"]
    by (simp add: poll_calendar_job_def read_clock_def)
  show "fst (fetch_calendar self w) = Inr None"
    by (simp add: fetch_calendar_failure[OF f])
  show "fst (get_actionable_checkouts self isoformat buffer_minutes w) = Inr []"
    by (simp add: get_actionable_checkouts_failure[OF f])
  show "calendar_poller (fst (poll_calendar_job g isoformat w)) =
        cleanup_old_processed (calendar_poller g) 24 (clock w (Suc (clock_reads w)))"
    by (simp add: job)
  show "processed_events (calendar_poller (fst (poll_calendar_job g isoformat w)))
        \<subseteq> processed_events (calendar_poller g)"
    by (simp add: job processed_events_cleanup)
  show "sdm_requests (snd (poll_calendar_job g isoformat w)) = sdm_requests w"
    by (simp add: job)
  show "refresh_requests (snd (poll_calendar_job g isoformat w)) = refresh_requests w"
    by (simp add: job)
  show "notifications (snd (poll_calendar_job g isoformat w)) = notifications w"
    by (simp add: job)
  show "last_action_result (fst (poll_calendar_job g isoformat w)) = last_action_result g"
    by (simp add: job)
qed

theorem feed_failure_is_null_witness:
  "feed_failure (feed_unavailable 0) \<and> feed_failure (feed_malformed 0) \<and>
   feed_failure (FeedRaises ConnectError) \<and>
   fst (fetch_calendar example_poller (scripted_world always_ok)) = Inr None \<and>
   fst (get_actionable_checkouts example_poller example_isoformat 30
          (scripted_world always_ok\<lparr>feed_results := feed_malformed\<rparr>)) = Inr [] \<and>
   sdm_requests (snd (poll_calendar_job example_app example_isoformat (scripted_world always_ok)))
     = []"
proof -
  have f: "feed_failure (feed_unavailable 0)" "feed_failure (feed_malformed 0)"
    "feed_failure (FeedRaises ConnectError)"
    by (simp_all add: feed_failure_def feed_unavailable_def feed_malformed_def)
  show ?thesis
    using f
      feed_failure_is_null[of example_poller "scripted_world always_ok" example_isoformat 30
        example_app]
      feed_failure_is_null[of example_poller
        "scripted_world always_ok\<lparr>feed_results := feed_malformed\<rparr>" example_isoformat 30
        example_app]
    by (simp add: scripted_world_def)
qed

subsection \<open>C8: processing marks the event whatever the devices did\<close>

text \<open>
  C8. Let \<open>list_devices\<close> return the inventory. When the resolved target device list is
  not empty, \<open>process_checkout_event\<close> returns the action result of the fan-out, whatever
  the booleans of its mapping are (all false included), and the id of the event is in
  the processed set afterwards. When the resolved list is empty it returns the "No
  thermostats found" failure, and the ledger and the world are as \<open>list_devices\<close> left
  them: the event is not marked and no command is sent.
\<close>

theorem process_checkout_event_marks:
  "list_devices False (nest_controller g, w) = (Inr devices, (nc, w1)) \<Longrightarrow>
   (resolved_device_ids (settings g) devices \<noteq> [] \<longrightarrow>
      (\<exists>result.
         fst (process_checkout_event g event w) = Inr (Processed result) \<and>
         fst (turn_off_thermostats (resolved_device_ids (settings g) devices) (nc, w1))
           = Inr (results result) \<and>
         thermostats_off result = length (filter snd (results result)) \<and>
         thermostats_failed result = length (results result) - thermostats_off result \<and>
         last_action_result (fst (snd (process_checkout_event g event w))) = Some result) \<and>
      reservation_id event \<in>
        processed_events (calendar_poller (fst (snd (process_checkout_event g event w))))) \<and>
   (resolved_device_ids (settings g) devices = [] \<longrightarrow>
      process_checkout_event g event w =
        (Inr NoThermostatsFound, g\<lparr>nest_controller := nc\<rparr>, w1))"
  by (auto simp: process_checkout_event_def turn_off_thermostats_def Let_def split_beta
      marked_after_mark_processed)

lemmas app_defs = example_app_def unconfigured_app_def example_notifier_def
  example_poller_def example_event_def is_configured_def resolved_device_ids_def
  device_ids_list_def strip_def isspace_def

theorem process_checkout_event_marks_witness:
  "list_devices False (nest_controller example_app, scripted_world always_server_error)
     = (Inr [hallway], (nest_controller example_app, scripted_world always_server_error)) \<and>
   resolved_device_ids (settings example_app) [hallway] = [''thermo-1'', ''thermo-2''] \<and>
   fst (turn_off_thermostats [''thermo-1'', ''thermo-2'']
          (nest_controller example_app, scripted_world always_server_error))
     = Inr [(''thermo-1'', False), (''thermo-2'', False)] \<and>
   ''ABC123'' \<in> processed_events (calendar_poller (fst (snd
       (process_checkout_event example_app example_event (scripted_world always_server_error))))) \<and>
   list_devices False (nest_controller unconfigured_app, scripted_world empty_listing)
     = (Inr [], (example_controller\<lparr>devices_cache := Some []\<rparr>,
                 scripted_world empty_listing\<lparr>clock_reads := 1, sdm_requests := [GetDevices]\<rparr>)) \<and>
   process_checkout_event unconfigured_app example_event (scripted_world empty_listing)
     = (Inr NoThermostatsFound,
        unconfigured_app\<lparr>nest_controller := example_controller\<lparr>devices_cache := Some []\<rparr>\<rparr>,
        scripted_world empty_listing\<lparr>clock_reads := 1, sdm_requests := [GetDevices]\<rparr>)"
proof -
  have l1: "list_devices False (nest_controller example_app, scripted_world always_server_error)
     = (Inr [hallway], (nest_controller example_app, scripted_world always_server_error))"
    by (simp add: list_devices_def list_devices_attempt_def retry_unroll example_app_def)
  have r1: "resolved_device_ids (settings example_app) [hallway] = [''thermo-1'', ''thermo-2'']"
    by (simp add: app_defs)
  have t1: "fst (turn_off_thermostats [''thermo-1'', ''thermo-2'']
          (nest_controller example_app, scripted_world always_server_error))
     = Inr [(''thermo-1'', False), (''thermo-2'', False)]"
    by (simp add: client_defs token_defs world_defs example_defs example_app_def)
  have l2: "list_devices False (nest_controller unconfigured_app, scripted_world empty_listing)
     = (Inr [], (example_controller\<lparr>devices_cache := Some []\<rparr>,
                 scripted_world empty_listing\<lparr>clock_reads := 1, sdm_requests := [GetDevices]\<rparr>))"
    by (simp add: client_defs token_defs world_defs example_defs app_defs thermostats_of_def)
  have r2: "resolved_device_ids (settings unconfigured_app) [] = []"
    by (simp add: app_defs)
  show ?thesis
    using l1 r1 t1 l2 r2
      process_checkout_event_marks[OF l1, of example_event]
      process_checkout_event_marks[OF l2, of example_event]
    by (simp add: example_event_def)
qed

end
